theory Spec2Isabelle
  imports Main "HOL-Library.List_Lexorder" "HOL-Library.Char_ord"
begin

section \<open>Errors raised by the generator and by the code it emits\<close>

text \<open>
  Every exception of the Python source, and of the Python it emits, is a value of this
  type. Functions that can raise return \<open>error + 'a\<close>, with \<open>Inl\<close> for the exception.
  \<open>Unmodelled\<close> is no exception of Python: it marks the inputs on which this
  development gives no result. These are a few calls of Python builtins (conversions to
  and from floating point, the \<open>repr\<close> of containers) and the emitted definitions
  whose text is outside the fragment of Python decided below (a name that is no ASCII
  identifier, a text that its literal may not hold unchanged, a name that hides one the
  body uses). A theorem below that states a result excludes them by its hypotheses.
\<close>

datatype error = KeyError | ValueError | TypeError | AttributeError | NameError
  | AssertionError | SyntaxError | Unmodelled

definition ebind :: "error + 'a \<Rightarrow> ('a \<Rightarrow> error + 'b) \<Rightarrow> error + 'b" where
  "ebind m f = (case m of Inl e \<Rightarrow> Inl e | Inr x \<Rightarrow> f x)"

text \<open>A comprehension or generator expression whose body can raise: the first
  exception, in list order, ends it.\<close>

fun emap :: "('a \<Rightarrow> error + 'b) \<Rightarrow> 'a list \<Rightarrow> error + 'b list" where
  "emap f [] = Inr []"
| "emap f (x # xs) =
     (case f x of Inl e \<Rightarrow> Inl e
      | Inr y \<Rightarrow> (case emap f xs of Inl e \<Rightarrow> Inl e | Inr ys \<Rightarrow> Inr (y # ys)))"

section \<open>The naming service: \<open>inflection.underscore\<close> and \<open>inflection.camelize\<close>\<close>

text \<open>
  The generator imports the third-party package \<open>inflection\<close>. Its two functions are
  modelled here from the package's source, on ASCII text:
  \<^verbatim>\<open>
  def underscore(word):
      word = re.sub(r"([A-Z]+)([A-Z][a-z])", r'\1_\2', word)
      word = re.sub(r"([a-z\d])([A-Z])", r'\1_\2', word)
      word = word.replace("-", "_")
      return word.lower()
  def camelize(string, uppercase_first_letter=True):
      if uppercase_first_letter:
          return re.sub(r"(?:^|_)(.)", lambda m: m.group(1).upper(), string)
  \<close>
\<close>

definition is_upper :: "char \<Rightarrow> bool" where
  "is_upper c = List.member ''ABCDEFGHIJKLMNOPQRSTUVWXYZ'' c"

definition is_lower :: "char \<Rightarrow> bool" where
  "is_lower c = List.member ''abcdefghijklmnopqrstuvwxyz'' c"

definition is_digit :: "char \<Rightarrow> bool" where
  "is_digit c = List.member ''0123456789'' c"

definition to_lower :: "char \<Rightarrow> char" where
  "to_lower c = (if is_upper c then char_of (of_char c + (32::nat)) else c)"

definition to_upper :: "char \<Rightarrow> char" where
  "to_upper c = (if is_lower c then char_of (of_char c - (32::nat)) else c)"

definition lower :: "string \<Rightarrow> string" where
  "lower s = map to_lower s"

definition upper :: "string \<Rightarrow> string" where
  "upper s = map to_upper s"

text \<open>First substitution of \<open>underscore\<close>: an underscore goes before the last capital
  of a run of capitals that a lower-case letter follows.\<close>

fun sub_acronym :: "string \<Rightarrow> string" where
  "sub_acronym (a # b # c # s) =
     (if is_upper a \<and> is_upper b \<and> is_lower c
      then a # CHR ''_'' # sub_acronym (b # c # s)
      else a # sub_acronym (b # c # s))"
| "sub_acronym s = s"

text \<open>Second substitution: an underscore goes between a lower-case letter or digit
  and a capital.\<close>

fun sub_boundary :: "string \<Rightarrow> string" where
  "sub_boundary (a # b # s) =
     (if (is_lower a \<or> is_digit a) \<and> is_upper b
      then a # CHR ''_'' # sub_boundary (b # s)
      else a # sub_boundary (b # s))"
| "sub_boundary s = s"

definition replace_char :: "char \<Rightarrow> char \<Rightarrow> string \<Rightarrow> string" where
  "replace_char old new s = map (\<lambda>c. if c = old then new else c) s"

definition underscore :: "string \<Rightarrow> string" where
  "underscore word = lower (replace_char CHR ''-'' CHR ''_'' (sub_boundary (sub_acronym word)))"

text \<open>\<open>camelize\<close>: the character at the start, and each character after an
  underscore (the underscore is dropped), is upper-cased; \<open>.\<close> matches no newline.\<close>

fun camelize_rest :: "string \<Rightarrow> string" where
  "camelize_rest (a # b # s) =
     (if a = CHR ''_'' \<and> b \<noteq> CHR 0x0A then to_upper b # camelize_rest s
      else a # camelize_rest (b # s))"
| "camelize_rest s = s"

fun camelize :: "string \<Rightarrow> string" where
  "camelize [] = []"
| "camelize (a # s) = (if a \<noteq> CHR 0x0A then to_upper a # camelize_rest s
                       else a # camelize_rest s)"

section \<open>Reference resolution\<close>

text \<open>\<open>str.split(sep)\<close>: a text with n separators falls into n + 1 parts.\<close>

fun split_on :: "char \<Rightarrow> string \<Rightarrow> string list" where
  "split_on sep [] = [[]]"
| "split_on sep (c # cs) =
     (if c = sep then [] # split_on sep cs
      else (case split_on sep cs of
              p # ps \<Rightarrow> (c # p) # ps
            | [] \<Rightarrow> [[c]]))"

text \<open>
  \<^verbatim>\<open>
  def ref_to_python(ref: str) -> str:
      if '.' in ref:
          domain, subtype = ref.split('.')
          ref = '{}.{}'.format(inflection.underscore(domain), subtype)
      return f"{ref}"
  \<close>
  Unpacking into two names raises \<open>ValueError\<close> unless the split has exactly two parts.
\<close>

definition ref_to_python :: "string \<Rightarrow> error + string" where
  "ref_to_python ref =
     (if List.member ref CHR ''.''
      then (case split_on CHR ''.'' ref of
              [domain, subtype] \<Rightarrow> Inr (underscore domain @ ''.'' @ subtype)
            | _ \<Rightarrow> Inl ValueError)
      else Inr ref)"

section \<open>The intermediate representation\<close>

text \<open>
  The dataclasses \<open>CdpItems\<close>, \<open>CdpProperty\<close>, \<open>CdpType\<close>, \<open>CdpCommand\<close>,
  \<open>CdpEvent\<close> and \<open>CdpDomain\<close>. A field that \<open>from_json\<close> fills with
  \<open>dict.get\<close> may be \<open>None\<close>, hence the options. \<open>CdpParameter\<close> and
  \<open>CdpReturn\<close> are subclasses of \<open>CdpProperty\<close> that add no field: they share its
  record, and their methods are the functions named \<open>param_\<close> and \<open>return_\<close> below.
\<close>

record CdpItems =
  items_type :: "string option"
  items_ref :: "string option"

record CdpProperty =
  prop_name :: string
  prop_description :: "string option"
  prop_type :: "string option"
  prop_ref :: "string option"
  prop_enum :: "string list option"
  prop_items :: "CdpItems option"
  prop_optional :: bool

record CdpType =
  type_id :: string
  type_description :: "string option"
  type_type :: "string option"
  type_items :: "CdpItems option"
  type_enum :: "string list option"
  type_properties :: "CdpProperty list"

record CdpCommand =
  cmd_name :: string
  cmd_description :: "string option"
  cmd_experimental :: bool
  cmd_parameters :: "CdpProperty list"
  cmd_returns :: "CdpProperty list"
  cmd_domain :: string

record CdpEvent =
  event_name :: string
  event_description :: "string option"
  event_parameters :: "CdpProperty list"
  event_domain :: string

record CdpDomain =
  domain_domain :: string
  domain_experimental :: bool
  domain_dependencies :: "string list"
  domain_types :: "CdpType list"
  domain_commands :: "CdpCommand list"
  domain_events :: "CdpEvent list"

text \<open>Python's truth value of an optional text (\<open>if self.ref:\<close>) and of an optional
  list (\<open>if self.enum:\<close>): \<open>None\<close> and the empty value are false.\<close>

definition truthy :: "'a list option \<Rightarrow> bool" where
  "truthy x = (case x of None \<Rightarrow> False | Some s \<Rightarrow> s \<noteq> [])"

text \<open>The enum \<open>CdpPrimitiveType\<close>, read by name: \<open>CdpPrimitiveType[key].value\<close>
  raises \<open>KeyError\<close> for any other key, \<open>None\<close> included.\<close>

definition CdpPrimitiveType :: "string option \<Rightarrow> error + string" where
  "CdpPrimitiveType key =
     (if key = Some ''any'' then Inr ''typing.Any''
      else if key = Some ''boolean'' then Inr ''bool''
      else if key = Some ''integer'' then Inr ''int''
      else if key = Some ''number'' then Inr ''float''
      else if key = Some ''object'' then Inr ''dict''
      else if key = Some ''string'' then Inr ''str''
      else Inl KeyError)"

definition py_name :: "CdpProperty \<Rightarrow> string" where
  "py_name p = underscore (prop_name p)"

section \<open>The emitted Python, as abstract syntax\<close>

text \<open>
  The generator builds Python text with f-strings. The model keeps the syntax tree of
  that text: each f-string of the source is the constructor whose rendering
  (\<open>render_expr\<close>, \<open>render_stmt\<close>) is that f-string. Line layout (the indentation
  of members, the blank lines between them) and the comments of \<open>inline_doc\<close> carry no
  behaviour and are left out. Names and text literals are kept as the emitter writes
  them, and so is the docstring of a command: whether Python accepts the definition of
  a command or of an enumeration depends on them, and is decided in the section on
  the meaning of the emitted Python.
\<close>

datatype expr =
    Name string
  | SelfAttr string
  | NoneLit
  | Subscript string string
  | KeyIn string string
  | IsNotNone expr
  | ToJson expr
  | FromJson string expr
  | Conv string expr
  | ListComp expr expr
  | IfExp expr expr expr

datatype stmt =
    SetItem string string expr
  | IfStmt expr stmt

definition sq :: string where
  "sq = [CHR 0x27]"

fun render_expr :: "expr \<Rightarrow> string" where
  "render_expr (Name x) = x"
| "render_expr (SelfAttr x) = ''self.'' @ x"
| "render_expr NoneLit = ''None''"
| "render_expr (Subscript d k) = d @ ''['' @ sq @ k @ sq @ '']''"
| "render_expr (KeyIn k d) = sq @ k @ sq @ '' in '' @ d"
| "render_expr (IsNotNone e) = render_expr e @ '' is not None''"
| "render_expr (ToJson e) = render_expr e @ ''.to_json()''"
| "render_expr (FromJson c e) = c @ ''.from_json('' @ render_expr e @ '')''"
| "render_expr (Conv f e) = f @ ''('' @ render_expr e @ '')''"
| "render_expr (ListComp el it) =
     ''['' @ render_expr el @ '' for i in '' @ render_expr it @ '']''"
| "render_expr (IfExp a c b) =
     render_expr a @ '' if '' @ render_expr c @ '' else '' @ render_expr b"

fun render_stmt :: "stmt \<Rightarrow> string" where
  "render_stmt (SetItem d k e) = d @ ''['' @ sq @ k @ sq @ ''] = '' @ render_expr e"
| "render_stmt (IfStmt c s) =
     ''if '' @ render_expr c @ '':'' @ [CHR 0x0A] @ ''    '' @ render_stmt s"

text \<open>A field of an emitted dataclass: \<open>name: annotation\<close>, with \<open>= None\<close> when
  \<open>decl_default\<close> holds. A parameter of an emitted function likewise.\<close>

datatype decl = Decl (decl_name: string) (decl_annotation: string) (decl_default: bool)

datatype py_param = PyParam (param_name: string) (param_type: string) (param_default: bool)

datatype py_primitive =
  PyPrimitive (prim_name: string) (prim_superclass: string) (prim_py_type: string)

datatype py_enum = PyEnum (enum_name: string) (enum_members: "(string \<times> string) list")

datatype py_class = PyClass (class_name: string) (class_fields: "decl list")
  (class_to_json: "stmt list") (class_from_json: "(string \<times> expr) list")

datatype py_command = PyCommand (fn_name: string) (fn_params: "py_param list")
  (fn_ret_type: string) (fn_doc: string) (fn_assigns: "stmt list") (fn_method: string)
  (fn_attach_params: bool) (fn_returns: "expr list")

datatype py_event = PyEvent (ev_tag: string) (ev_name: string) (ev_fields: "decl list")
  (ev_from_json: "(string \<times> expr) list")

datatype py_unit = UPrimitive py_primitive | UEnum py_enum | UClass py_class
  | UCommand py_command | UEvent py_event

datatype py_module = PyModule (mod_domain: string) (mod_experimental: bool)
  (mod_units: "py_unit list")

section \<open>CdpProperty\<close>

text \<open>
  \<^verbatim>\<open>
  def py_annotation(self) -> str:
      if self.items:
          if self.items.ref:
              py_ref = ref_to_python(self.items.ref)
              ann = "typing.List['{}']".format(py_ref)
          else:
              ann = 'typing.List[{}]'.format(CdpPrimitiveType[self.items.type].value)
      else:
          if self.ref:
              py_ref = ref_to_python(self.ref)
              ann = f"'{py_ref}'"
          else:
              ann = CdpPrimitiveType[self.type].value
      if self.optional:
          ann = f'typing.Optional[{ann}]'
      return ann
  \<close>
  \<open>return_py_annotation\<close> is the override of \<open>CdpReturn\<close>: the same without the
  last step. A \<open>CdpItems\<close> object is always true.
\<close>

definition return_py_annotation :: "CdpProperty \<Rightarrow> error + string" where
  "return_py_annotation p =
     (case prop_items p of
        Some it \<Rightarrow>
          (if truthy (items_ref it)
           then ebind (ref_to_python (the (items_ref it)))
                  (\<lambda>py_ref. Inr (''typing.List['' @ sq @ py_ref @ sq @ '']''))
           else ebind (CdpPrimitiveType (items_type it))
                  (\<lambda>py_type. Inr (''typing.List['' @ py_type @ '']'')))
      | None \<Rightarrow>
          (if truthy (prop_ref p)
           then ebind (ref_to_python (the (prop_ref p)))
                  (\<lambda>py_ref. Inr (sq @ py_ref @ sq))
           else CdpPrimitiveType (prop_type p)))"

definition py_annotation :: "CdpProperty \<Rightarrow> error + string" where
  "py_annotation p =
     ebind (return_py_annotation p)
       (\<lambda>ann. Inr (if prop_optional p then ''typing.Optional['' @ ann @ '']'' else ann))"

text \<open>
  \<^verbatim>\<open>
  def generate_decl(self) -> str:
      code = inline_doc(self.description)
      code += f'{self.py_name}: {self.py_annotation}'
      if self.optional:
          code += ' = None'
      return code
  \<close>
\<close>

definition generate_decl :: "CdpProperty \<Rightarrow> error + decl" where
  "generate_decl p =
     ebind (py_annotation p) (\<lambda>ann. Inr (Decl (py_name p) ann (prop_optional p)))"

text \<open>
  \<^verbatim>\<open>
  def generate_to_json(self, dict_: str, use_self: bool=True) -> str:
      self_ref = 'self.' if use_self else ''
      assign = f"{dict_}['{self.name}'] = "
      if self.items:
          if self.items.ref:
              assign += f"[i.to_json() for i in {self_ref}{self.py_name}]"
          else:
              assign += f"[i for i in {self_ref}{self.py_name}]"
      else:
          if self.ref:
              assign += f"{self_ref}{self.py_name}.to_json()"
          else:
              assign += f"{self_ref}{self.py_name}"
      if self.optional:
          code = dedent(f'''\
              if {self_ref}{self.py_name} is not None:
                  {assign}''')
      else:
          code = assign
      return code
  \<close>
\<close>

definition generate_to_json :: "CdpProperty \<Rightarrow> string \<Rightarrow> bool \<Rightarrow> stmt" where
  "generate_to_json p dname use_self =
     (let var = (if use_self then SelfAttr (py_name p) else Name (py_name p));
          assign = SetItem dname (prop_name p)
            (case prop_items p of
               Some it \<Rightarrow>
                 (if truthy (items_ref it) then ListComp (ToJson (Name ''i'')) var
                  else ListComp (Name ''i'') var)
             | None \<Rightarrow>
                 (if truthy (prop_ref p) then ToJson var else var))
      in if prop_optional p then IfStmt (IsNotNone var) assign else assign)"

text \<open>
  \<^verbatim>\<open>
  def generate_from_json(self, dict_='json') -> str:
      if self.items:
          if self.items.ref:
              py_ref = ref_to_python(self.items.ref)
              expr = f"[{py_ref}.from_json(i) for i in {dict_}['{self.name}']]"
          else:
              py_type = CdpPrimitiveType[self.items.type].value
              expr = f"[{py_type}(i) for i in {dict_}['{self.name}']]"
      else:
          if self.ref:
              py_ref = ref_to_python(self.ref)
              expr = f"{py_ref}.from_json({dict_}['{self.name}'])"
          else:
              expr = f"{dict_}['{self.name}']"
      if self.optional:
          expr = f"{expr} if '{self.name}' in {dict_} else None"
      return expr
  \<close>
\<close>

definition generate_from_json :: "CdpProperty \<Rightarrow> string \<Rightarrow> error + expr" where
  "generate_from_json p dname =
     ebind
       (case prop_items p of
          Some it \<Rightarrow>
            (if truthy (items_ref it)
             then ebind (ref_to_python (the (items_ref it)))
                    (\<lambda>py_ref. Inr (ListComp (FromJson py_ref (Name ''i''))
                                      (Subscript dname (prop_name p))))
             else ebind (CdpPrimitiveType (items_type it))
                    (\<lambda>py_type. Inr (ListComp (Conv py_type (Name ''i''))
                                       (Subscript dname (prop_name p)))))
        | None \<Rightarrow>
            (if truthy (prop_ref p)
             then ebind (ref_to_python (the (prop_ref p)))
                    (\<lambda>py_ref. Inr (FromJson py_ref (Subscript dname (prop_name p))))
             else Inr (Subscript dname (prop_name p))))
       (\<lambda>expr. Inr (if prop_optional p
                     then IfExp expr (KeyIn (prop_name p) dname) NoneLit
                     else expr))"

section \<open>CdpType\<close>

text \<open>
  \<^verbatim>\<open>
  def generate_primitive_code(self) -> str:
      if self.items:
          if self.items.ref:
              nested_type = ref_to_python(self.items.ref)
              py_type = f"typing.List['{nested_type}']"
          else:
              nested_type = CdpPrimitiveType[self.items.type].value
              py_type = f'typing.List[{nested_type}]'
          superclass = 'list'
      else:
          py_type = CdpPrimitiveType[self.type].value
          superclass = py_type
      code = f'class {self.id}({superclass}):\n'
      ...
  \<close>
\<close>

definition generate_primitive_code :: "CdpType \<Rightarrow> error + py_primitive" where
  "generate_primitive_code t =
     (case type_items t of
        Some it \<Rightarrow>
          ebind
            (if truthy (items_ref it)
             then ebind (ref_to_python (the (items_ref it)))
                    (\<lambda>nested_type. Inr (''typing.List['' @ sq @ nested_type @ sq @ '']''))
             else ebind (CdpPrimitiveType (items_type it))
                    (\<lambda>nested_type. Inr (''typing.List['' @ nested_type @ '']'')))
            (\<lambda>py_type. Inr (PyPrimitive (type_id t) ''list'' py_type))
      | None \<Rightarrow>
          ebind (CdpPrimitiveType (type_type t))
            (\<lambda>py_type. Inr (PyPrimitive (type_id t) py_type py_type)))"

text \<open>
  \<^verbatim>\<open>
  def generate_enum_code(self) -> str:
      ...
      code = f'class {self.id}(enum.Enum):\n'
      doc = docstring(self.description)
      if doc:
          code += indent(doc, 4) + '\n'
      for enum_member in self.enum:
          snake_case = inflection.underscore(enum_member).upper()
          enum_code = f'{snake_case} = "{enum_member}"\n'
          code += indent(enum_code, 4)
      code += '\n' + indent(def_to_json, 4)
      code += '\n\n' + indent(def_from_json, 4)
      return code
  \<close>
  where \<open>to_json\<close> returns \<open>self.value\<close> and \<open>from_json\<close> returns \<open>cls(json)\<close>.
  The method is only called when \<open>self.enum\<close> is true; iterating \<open>None\<close> would raise
  \<open>TypeError\<close>. The docstring of the class is \<open>docstring (type_description t)\<close>
  (section Docstrings); it is no part of \<open>py_enum\<close> and is given beside it where the
  class statement is run.
\<close>

definition generate_enum_code :: "CdpType \<Rightarrow> error + py_enum" where
  "generate_enum_code t =
     (case type_enum t of
        None \<Rightarrow> Inl TypeError
      | Some members \<Rightarrow>
          Inr (PyEnum (type_id t)
                 (map (\<lambda>enum_member. (upper (underscore enum_member), enum_member)) members)))"

text \<open>
  \<^verbatim>\<open>
  def generate_class_code(self) -> str:
      ...
      props = list(self.properties)
      props.sort(key=operator.attrgetter('optional'))
      code += '\n\n'.join(indent(p.generate_decl(), 4) for p in props)
      ...
      assigns = (p.generate_to_json(dict_='json') for p in props)
      def_to_json += indent('\n'.join(assigns), 4)
      ...
      def_from_json = dedent(f'''\
          @classmethod
          def from_json(cls, json: T_JSON_DICT) -> '{self.id}':
              return cls(
      ''')
      def_from_json += indent('\n'.join(f'{p.name}={p.generate_from_json()},'
          for p in self.properties), 8)
      ...
  \<close>
  \<open>list.sort\<close> is a stable sort, and so is \<open>sort_key\<close>; on the key \<open>optional\<close>,
  \<open>False\<close> comes before \<open>True\<close> in both.
\<close>

definition class_props :: "CdpType \<Rightarrow> CdpProperty list" where
  "class_props t = sort_key prop_optional (type_properties t)"

definition generate_class_code :: "CdpType \<Rightarrow> error + py_class" where
  "generate_class_code t =
     ebind (emap generate_decl (class_props t)) (\<lambda>decls.
     ebind (Inr (map (\<lambda>p. generate_to_json p ''json'' True) (class_props t))) (\<lambda>assigns.
     ebind (emap (\<lambda>p. ebind (generate_from_json p ''json'') (\<lambda>e. Inr (prop_name p, e)))
              (type_properties t)) (\<lambda>kwargs.
     Inr (PyClass (type_id t) decls assigns kwargs))))"

text \<open>
  \<^verbatim>\<open>
  def generate_code(self) -> str:
      if self.enum:
          return self.generate_enum_code()
      elif self.properties:
          return self.generate_class_code()
      else:
          return self.generate_primitive_code()
  \<close>
\<close>

definition type_generate_code :: "CdpType \<Rightarrow> error + py_unit" where
  "type_generate_code t =
     (if truthy (type_enum t) then ebind (generate_enum_code t) (\<lambda>u. Inr (UEnum u))
      else if type_properties t \<noteq> [] then ebind (generate_class_code t) (\<lambda>u. Inr (UClass u))
      else ebind (generate_primitive_code t) (\<lambda>u. Inr (UPrimitive u)))"

section \<open>CdpParameter and CdpReturn\<close>

text \<open>
  \<open>CdpParameter.generate_code\<close> computes the annotation as \<open>py_annotation\<close> does and
  emits \<open>name: type\<close>, with \<open>= None\<close> when optional. \<open>CdpParameter.generate_decl\<close>
  emits \<open>name: annotation\<close> and never a default.
  \<^verbatim>\<open>
  def generate_from_json(self, dict_) -> str:
      code = super().generate_from_json(dict_)
      try:
          prim = CdpPrimitiveType[self.type].value
          code = f'{prim}({code})'
      except KeyError:
          pass
      return f'{self.py_name}={code}'
  \<close>
\<close>

definition param_generate_code :: "CdpProperty \<Rightarrow> error + py_param" where
  "param_generate_code p =
     ebind (py_annotation p) (\<lambda>py_type. Inr (PyParam (py_name p) py_type (prop_optional p)))"

definition param_generate_decl :: "CdpProperty \<Rightarrow> error + decl" where
  "param_generate_decl p =
     ebind (py_annotation p) (\<lambda>ann. Inr (Decl (py_name p) ann False))"

definition param_generate_from_json :: "CdpProperty \<Rightarrow> string \<Rightarrow> error + string \<times> expr" where
  "param_generate_from_json p dname =
     ebind (generate_from_json p dname) (\<lambda>code.
       Inr (py_name p,
            (case CdpPrimitiveType (prop_type p) of
               Inr prim \<Rightarrow> Conv prim code
             | Inl e \<Rightarrow> code)))"

text \<open>
  \<^verbatim>\<open>
  def generate_return(self, dict_):
      code = super().generate_from_json()
      try:
          type_ = CdpPrimitiveType[self.type].value
          code = f'{type_}({code})'
      except:
          pass
      return code
  \<close>
  The call of \<open>super().generate_from_json()\<close> passes no dictionary name: the default
  \<open>'json'\<close> is used whatever \<open>dict_\<close> is.
\<close>

definition generate_return :: "CdpProperty \<Rightarrow> string \<Rightarrow> error + expr" where
  "generate_return p dname =
     ebind (generate_from_json p ''json'') (\<lambda>code.
       Inr (case CdpPrimitiveType (prop_type p) of
              Inr type' \<Rightarrow> Conv type' code
            | Inl e \<Rightarrow> code))"

section \<open>Docstrings\<close>

text \<open>
  \<^verbatim>\<open>
  def indent(s: str, n: int):
      return tw_indent(s, n * ' ')
  def docstring(description: typing.Optional[str]) -> str:
      if not description:
          return ''
      return dedent("'''\n{}\n'''").format(description)
  \<close>
  \<open>textwrap.indent\<close> puts the prefix before every line that has a character other
  than white space; the lines are those of \<open>str.splitlines\<close>, their ends kept.
  \<open>dedent\<close> leaves the template of \<open>docstring\<close> as it is: none of its lines starts
  with white space. Characters are those of Latin-1.
\<close>

definition is_linebreak :: "char \<Rightarrow> bool" where
  "is_linebreak c = List.member [CHR 0x0A, CHR 0x0B, CHR 0x0C, CHR 0x0D, CHR 0x1C, CHR 0x1D,
                                 CHR 0x1E, CHR 0x85] c"

definition is_space :: "char \<Rightarrow> bool" where
  "is_space c = List.member [CHR 0x09, CHR 0x0A, CHR 0x0B, CHR 0x0C, CHR 0x0D, CHR 0x1C,
                             CHR 0x1D, CHR 0x1E, CHR 0x1F, CHR 0x20, CHR 0x85, CHR 0xA0] c"

fun splitlines :: "string \<Rightarrow> string \<Rightarrow> string list" where
  "splitlines cur [] = (if cur = [] then [] else [cur])"
| "splitlines cur [c] = [cur @ [c]]"
| "splitlines cur (c # d # s) =
     (if c = CHR 0x0D \<and> d = CHR 0x0A then (cur @ [c, d]) # splitlines [] s
      else if is_linebreak c then (cur @ [c]) # splitlines [] (d # s)
      else splitlines (cur @ [c]) (d # s))"

definition indent :: "string \<Rightarrow> nat \<Rightarrow> string" where
  "indent s n =
     concat (map (\<lambda>line. if list_ex (\<lambda>c. \<not> is_space c) line
                          then replicate n CHR '' '' @ line else line)
               (splitlines [] s))"

definition docstring :: "string option \<Rightarrow> string" where
  "docstring description =
     (if truthy description
      then sq @ sq @ sq @ [CHR 0x0A] @ the description @ [CHR 0x0A] @ sq @ sq @ sq
      else [])"

text \<open>Decimal text of a natural number, for the f-string of \<open>enumerate\<close> below and
  for \<open>str\<close>.\<close>

fun digit_char :: "nat \<Rightarrow> char" where
  "digit_char n = ''0123456789'' ! (n mod 10)"

function show_nat :: "nat \<Rightarrow> string" where
  "show_nat n = (if n < 10 then [digit_char n] else show_nat (n div 10) @ [digit_char n])"
  by pat_completeness auto
termination
  by (relation "measure id") auto

declare show_nat.simps [simp del]

text \<open>
  \<^verbatim>\<open>
  def generate_doc(self) -> str:                  # CdpParameter
      doc = f':param {self.py_name}:'
      if self.description:
          desc = self.description.replace('`', '``')
          doc += f' {desc}'
      return doc
  def generate_doc(self):                         # CdpReturn
      if self.description:
          doc = self.description.replace('`', '``')
          if self.optional:
              doc = f'(Optional) {doc}'
      else:
          doc = ''
      return doc
  \<close>
\<close>

definition double_backticks :: "string \<Rightarrow> string" where
  "double_backticks s = concat (map (\<lambda>c. if c = CHR 0x60 then [c, c] else [c]) s)"

definition param_generate_doc :: "CdpProperty \<Rightarrow> string" where
  "param_generate_doc p =
     '':param '' @ py_name p @ '':''
       @ (if truthy (prop_description p)
          then '' '' @ double_backticks (the (prop_description p)) else [])"

definition return_generate_doc :: "CdpProperty \<Rightarrow> string" where
  "return_generate_doc r =
     (if truthy (prop_description r)
      then (if prop_optional r then ''(Optional) '' else [])
             @ double_backticks (the (prop_description r))
      else [])"

section \<open>CdpCommand, CdpEvent and CdpDomain\<close>

definition join :: "string \<Rightarrow> string list \<Rightarrow> string" where
  "join sep xs = (case xs of [] \<Rightarrow> [] | y # ys \<Rightarrow> foldl (\<lambda>acc z. acc @ sep @ z) y ys)"

text \<open>
  \<^verbatim>\<open>
  def generate_code(self) -> str:
      if len(self.returns) == 0:
          ret_type = 'None'
      elif len(self.returns) == 1:
          ret_type = self.returns[0].py_annotation
      else:
          nested_types = ', '.join(r.py_annotation for r in self.returns)
          ret_type = f'typing.Tuple[{nested_types}]'
      ret_type = f"typing.Generator[T_JSON_DICT,T_JSON_DICT,{ret_type}]"
      code = f'def {self.py_name}('
      ret = f') -> {ret_type}:\n'
      if self.parameters:
          code += '\n'
          code += indent(',\n'.join(p.generate_code() for p in self.parameters), 8)
          ...
      if self.description:
          doc = self.description
      else:
          doc = ''
      if self.parameters and doc:
          doc += '\n\n'
      elif not self.parameters and self.returns:
          doc += '\n'
      doc += '\n'.join(p.generate_doc() for p in self.parameters)
      if len(self.returns) == 1:
          doc += '\n'
          ret_doc = self.returns[0].generate_doc()
          doc += f':returns: {ret_doc}'
      elif len(self.returns) > 1:
          doc += '\n'
          doc += ':returns: a tuple with the following items:\n'
          ret_docs = '\n'.join(f'{i}. {r.name}: {r.generate_doc()}' for i, r
              in enumerate(self.returns))
          doc += indent(ret_docs, 4)
      if doc:
          code += indent(docstring(doc), 4)
      if self.parameters:
          code += '\n'
          code += indent('params: T_JSON_DICT = dict()', 4)
          code += '\n'
      assigns = (p.generate_to_json(dict_='params', use_self=False)
          for p in self.parameters)
      code += indent('\n'.join(assigns), 4)
      code += '\n'
      code += indent('cmd_dict: T_JSON_DICT = {\n', 4)
      code += indent(f"'method': '{self.domain}.{self.name}',\n", 8)
      if self.parameters:
          code += indent("'params': params,\n", 8)
      code += indent('}\n', 4)
      code += indent('json = yield cmd_dict', 4)
      if len(self.returns) == 0:
          pass
      else:
          code += '\n'
          expr = ', '.join(r.generate_return(dict_='json') for r in self.returns)
          code += indent(f'return {expr}', 4)
      return code
  \<close>
\<close>

definition cmd_doc :: "CdpCommand \<Rightarrow> string" where
  "cmd_doc c =
     (let doc0 = (if truthy (cmd_description c) then the (cmd_description c) else []);
          doc1 = (if cmd_parameters c \<noteq> [] \<and> doc0 \<noteq> [] then doc0 @ [CHR 0x0A, CHR 0x0A]
                  else if cmd_parameters c = [] \<and> cmd_returns c \<noteq> [] then doc0 @ [CHR 0x0A]
                  else doc0);
          doc2 = doc1 @ join [CHR 0x0A] (map param_generate_doc (cmd_parameters c))
      in (case cmd_returns c of
            [] \<Rightarrow> doc2
          | [r] \<Rightarrow> doc2 @ [CHR 0x0A] @ '':returns: '' @ return_generate_doc r
          | rs \<Rightarrow>
              doc2 @ [CHR 0x0A] @ '':returns: a tuple with the following items:'' @ [CHR 0x0A]
                @ indent (join [CHR 0x0A]
                            (map (\<lambda>(i, r). show_nat i @ ''. '' @ prop_name r @ '': ''
                                              @ return_generate_doc r)
                               (enumerate 0 rs))) 4))"

definition cmd_generate_code :: "CdpCommand \<Rightarrow> error + py_command" where
  "cmd_generate_code c =
     ebind
       (case cmd_returns c of
          [] \<Rightarrow> Inr ''None''
        | [r] \<Rightarrow> return_py_annotation r
        | rs \<Rightarrow> ebind (emap return_py_annotation rs)
                  (\<lambda>nested_types. Inr (''typing.Tuple['' @ join '', '' nested_types @ '']'')))
       (\<lambda>ret_type.
     ebind (emap param_generate_code (cmd_parameters c)) (\<lambda>params.
     ebind (Inr (map (\<lambda>p. generate_to_json p ''params'' False) (cmd_parameters c)))
       (\<lambda>assigns.
     ebind (emap (\<lambda>r. generate_return r ''json'') (cmd_returns c)) (\<lambda>returns.
     Inr (PyCommand (underscore (cmd_name c)) params
            (''typing.Generator[T_JSON_DICT,T_JSON_DICT,'' @ ret_type @ '']'')
            (docstring (Some (cmd_doc c)))
            assigns
            (cmd_domain c @ ''.'' @ cmd_name c)
            (cmd_parameters c \<noteq> [])
            returns)))))"

text \<open>
  \<^verbatim>\<open>
  def generate_code(self) -> str:
      code = dedent(f'''\
          @event_class('{self.domain}.{self.name}')
          @dataclass
          class {self.py_name}:''')
      ...
      code += indent('\n'.join(p.generate_decl() for p in self.parameters), 4)
      ...
      from_json = ',\n'.join(p.generate_from_json(dict_='json')
          for p in self.parameters)
      ...
  \<close>
  with \<open>py_name\<close> the camelized event name.
\<close>

definition event_generate_code :: "CdpEvent \<Rightarrow> error + py_event" where
  "event_generate_code ev =
     ebind (emap param_generate_decl (event_parameters ev)) (\<lambda>decls.
     ebind (emap (\<lambda>p. param_generate_from_json p ''json'') (event_parameters ev))
       (\<lambda>from_json.
     Inr (PyEvent (event_domain ev @ ''.'' @ event_name ev) (camelize (event_name ev))
            decls from_json)))"

text \<open>
  \<^verbatim>\<open>
  def generate_code(self) -> str:
      code = MODULE_HEADER.format(self.domain, self.experimental)
      item_iter = itertools.chain(iter(self.types), iter(self.commands), iter(self.events))
      code += '\n\n\n'.join(item.generate_code() for item in item_iter)
      code += '\n'
      return code
  \<close>
\<close>

definition domain_generate_code :: "CdpDomain \<Rightarrow> error + py_module" where
  "domain_generate_code d =
     ebind (emap type_generate_code (domain_types d)) (\<lambda>ts.
     ebind (emap (\<lambda>c. ebind (cmd_generate_code c) (\<lambda>u. Inr (UCommand u)))
              (domain_commands d)) (\<lambda>cs.
     ebind (emap (\<lambda>e. ebind (event_generate_code e) (\<lambda>u. Inr (UEvent u)))
              (domain_events d)) (\<lambda>es.
     Inr (PyModule (domain_domain d) (domain_experimental d) (ts @ cs @ es)))))"

section \<open>Shape classification, in the words of the specification\<close>

text \<open>The specification's classifier: an enumeration when \<open>enum_values\<close> is
  non-empty, else a composite when \<open>properties\<close> is non-empty, else a primitive
  wrapper. It is compared below with the dispatch of \<open>CdpType.generate_code\<close>.\<close>

datatype shape = Enumeration | Composite | PrimitiveWrapper

definition classify :: "CdpType \<Rightarrow> shape" where
  "classify t =
     (case type_enum t of
        Some (v # vs) \<Rightarrow> Enumeration
      | _ \<Rightarrow> (case type_properties t of
                 p # ps \<Rightarrow> Composite
               | [] \<Rightarrow> PrimitiveWrapper))"

definition required_then_optional :: "CdpProperty list \<Rightarrow> CdpProperty list" where
  "required_then_optional ps =
     filter (\<lambda>p. \<not> prop_optional p) ps @ filter prop_optional ps"

section \<open>Which references the emitter resolves\<close>






section \<open>The driver: \<open>parse\<close>, \<open>clear_dirs\<close> and \<open>main\<close>\<close>

text \<open>
  A schema file after \<open>json.load\<close>: its version pair and its domains, the latter
  already as \<open>CdpDomain\<close> objects.
  \<^verbatim>\<open>
  def parse(json_path, output_path):
      with json_path.open() as json_file:
          schema = json.load(json_file)
      version = schema['version']
      assert (version['major'], version['minor']) == ('1', '3')
      domains = list()
      for domain in schema['domains']:
          domains.append(CdpDomain.from_json(domain))
      return domains
  \<close>
\<close>

record schema =
  schema_major :: string
  schema_minor :: string
  schema_domains :: "CdpDomain list"

definition parse :: "schema \<Rightarrow> error + CdpDomain list" where
  "parse s =
     (if (schema_major s, schema_minor s) = (''1'', ''3'') then Inr (schema_domains s)
      else Inl AssertionError)"

text \<open>
  The output directory: its files by name, and the names of its subdirectories (what
  is below a subdirectory plays no role: \<open>rmdir\<close> removes it whole). \<open>None\<close> is a
  directory that does not exist yet.
\<close>

datatype content = ModuleFile py_module | InitFile "string list" | EmptyFile
  | OtherFile string

record outdir =
  od_files :: "(string \<times> content) list"
  od_dirs :: "string list"

definition write_file :: "string \<Rightarrow> content \<Rightarrow> outdir \<Rightarrow> outdir" where
  "write_file n c od =
     od\<lparr>od_files := (n, c) # filter (\<lambda>(m, x). m \<noteq> n) (od_files od)\<rparr>"

text \<open>
  \<^verbatim>\<open>
  def clear_dirs(package_path: Path):
      def rmdir(path):
          for subpath in path.iterdir():
              if subpath.is_file():
                  subpath.unlink()
              elif subpath.is_dir():
                  rmdir(subpath)
          path.rmdir()
      try:
          (package_path / '__init__.py').unlink()
      except FileNotFoundError:
          pass
      for subpath in package_path.iterdir():
          if subpath.is_dir():
              rmdir(subpath)
  \<close>
\<close>

definition clear_dirs :: "outdir \<Rightarrow> outdir" where
  "clear_dirs od =
     \<lparr>od_files = filter (\<lambda>(m, x). m \<noteq> ''__init__.py'') (od_files od), od_dirs = []\<rparr>"

text \<open>\<open>output_path.mkdir(exist_ok=True)\<close>.\<close>

definition mkdir :: "outdir option \<Rightarrow> outdir" where
  "mkdir od = (case od of None \<Rightarrow> \<lparr>od_files = [], od_dirs = []\<rparr> | Some d \<Rightarrow> d)"

text \<open>
  The loop that writes the modules. \<open>open('w')\<close> creates or empties the file before
  \<open>domain.generate_code()\<close> runs, so a generator that raises leaves an empty file.
  \<^verbatim>\<open>
  for domain in domains:
      module_path = output_path / f'{domain.module}.py'
      with module_path.open('w') as module_file:
          module_file.write(domain.generate_code())
  \<close>
\<close>

definition module_of :: "CdpDomain \<Rightarrow> string" where
  "module_of d = underscore (domain_domain d)"

fun write_modules :: "CdpDomain list \<Rightarrow> outdir \<Rightarrow> error option \<times> outdir" where
  "write_modules [] od = (None, od)"
| "write_modules (d # ds) od =
     (case domain_generate_code d of
        Inl e \<Rightarrow> (Some e, write_file (module_of d @ ''.py'') EmptyFile od)
      | Inr m \<Rightarrow> write_modules ds (write_file (module_of d @ ''.py'') (ModuleFile m) od))"

definition generate_init :: "CdpDomain list \<Rightarrow> outdir \<Rightarrow> outdir" where
  "generate_init domains od = write_file ''__init__.py'' (InitFile (map module_of domains)) od"

definition touch :: "string \<Rightarrow> outdir \<Rightarrow> outdir" where
  "touch n od = (if List.member (map fst (od_files od)) n then od
                 else write_file n EmptyFile od)"

text \<open>
  \<^verbatim>\<open>
  def main():
      ...
      output_path.mkdir(exist_ok=True)
      clear_dirs(output_path)
      domains = list()
      for json_path in json_paths:
          domains.extend(parse(json_path, output_path))
      domains.sort(key=operator.attrgetter('domain'))
      for domain in domains:
          ...
      init_path = output_path / '__init__.py'
      generate_init(init_path, domains)
      py_typed_path = output_path / 'py.typed'
      py_typed_path.touch()
  \<close>
  The result is the exception that ended the run, if any, and the output directory
  as the run leaves it.
\<close>

definition main :: "schema list \<Rightarrow> outdir option \<Rightarrow> error option \<times> outdir" where
  "main schemas od0 =
     (let od1 = clear_dirs (mkdir od0) in
      case emap parse schemas of
        Inl e \<Rightarrow> (Some e, od1)
      | Inr dss \<Rightarrow>
          (let domains = sort_key domain_domain (concat dss) in
           case write_modules domains od1 of
             (Some e, od2) \<Rightarrow> (Some e, od2)
           | (None, od2) \<Rightarrow> (None, touch ''py.typed'' (generate_init domains od2))))"

section \<open>The meaning of the emitted Python\<close>

text \<open>
  Run-time values of the emitted code: the wire values of JSON (without floating
  point), tuples, instances of emitted dataclasses (class name and fields), and
  members of emitted enumerations. Two members of a Python \<open>Enum\<close> with the same
  value are one object, so a member is given by its class and its value. A dictionary
  is an association list in insertion order, with distinct keys.
\<close>

datatype pyval = VNone | VBool bool | VInt int | VStr string | VList "pyval list"
  | VTuple "pyval list" | VDict "(string \<times> pyval) list"
  | VObj string "(string \<times> pyval) list" | VEnum string string

text \<open>\<open>d[k] = v\<close>: an existing key keeps its place.\<close>

fun dict_set :: "(string \<times> 'v) list \<Rightarrow> string \<Rightarrow> 'v \<Rightarrow> (string \<times> 'v) list" where
  "dict_set [] k v = [(k, v)]"
| "dict_set ((k', v') # d) k v =
     (if k' = k then (k, v) # d else (k', v') # dict_set d k v)"

text \<open>Truth value, iteration and the \<open>in\<close> operator of Python on these values.\<close>

fun py_truth :: "pyval \<Rightarrow> bool" where
  "py_truth VNone = False"
| "py_truth (VBool b) = b"
| "py_truth (VInt i) = (i \<noteq> 0)"
| "py_truth (VStr s) = (s \<noteq> [])"
| "py_truth (VList xs) = (xs \<noteq> [])"
| "py_truth (VTuple xs) = (xs \<noteq> [])"
| "py_truth (VDict d) = (d \<noteq> [])"
| "py_truth (VObj c fs) = True"
| "py_truth (VEnum c v) = True"

fun py_iter :: "pyval \<Rightarrow> error + pyval list" where
  "py_iter (VList xs) = Inr xs"
| "py_iter (VTuple xs) = Inr xs"
| "py_iter (VStr s) = Inr (map (\<lambda>c. VStr [c]) s)"
| "py_iter (VDict d) = Inr (map (\<lambda>(k, v). VStr k) d)"
| "py_iter v = Inl TypeError"

fun starts_with :: "string \<Rightarrow> string \<Rightarrow> bool" where
  "starts_with s [] = True"
| "starts_with [] (c # k) = False"
| "starts_with (a # s) (c # k) = (a = c \<and> starts_with s k)"

fun contains :: "string \<Rightarrow> string \<Rightarrow> bool" where
  "contains [] k = (k = [])"
| "contains (a # s) k = (starts_with (a # s) k \<or> contains s k)"

fun py_contains :: "pyval \<Rightarrow> string \<Rightarrow> error + pyval" where
  "py_contains (VDict d) k = Inr (VBool (List.member (map fst d) k))"
| "py_contains (VList xs) k = Inr (VBool (List.member xs (VStr k)))"
| "py_contains (VTuple xs) k = Inr (VBool (List.member xs (VStr k)))"
| "py_contains (VStr s) k = Inr (VBool (contains s k))"
| "py_contains v k = Inl TypeError"

text \<open>Decimal text of an integer, for \<open>str\<close>.\<close>

definition show_int :: "int \<Rightarrow> string" where
  "show_int i = (if i < 0 then ''-'' @ show_nat (nat (- i)) else show_nat (nat i))"

text \<open>
  The builtins that the emitter writes as conversions, the values of
  \<open>CdpPrimitiveType\<close>: \<open>str\<close>, \<open>int\<close>, \<open>float\<close>, \<open>bool\<close>, \<open>dict\<close> and
  \<open>typing.Any\<close> (which cannot be called). Where Python's result is outside the values
  above, or needs a parser, the result is \<open>Unmodelled\<close>.
\<close>

fun py_str :: "pyval \<Rightarrow> error + pyval" where
  "py_str VNone = Inr (VStr ''None'')"
| "py_str (VBool b) = Inr (VStr (if b then ''True'' else ''False''))"
| "py_str (VInt i) = Inr (VStr (show_int i))"
| "py_str (VStr s) = Inr (VStr s)"
| "py_str v = Inl Unmodelled"

fun py_int :: "pyval \<Rightarrow> error + pyval" where
  "py_int (VInt i) = Inr (VInt i)"
| "py_int (VBool b) = Inr (VInt (if b then 1 else 0))"
| "py_int (VStr s) = Inl Unmodelled"
| "py_int v = Inl TypeError"

fun py_float :: "pyval \<Rightarrow> error + pyval" where
  "py_float (VInt i) = Inl Unmodelled"
| "py_float (VBool b) = Inl Unmodelled"
| "py_float (VStr s) = Inl Unmodelled"
| "py_float v = Inl TypeError"

fun py_dict :: "pyval \<Rightarrow> error + pyval" where
  "py_dict (VDict d) = Inr (VDict d)"
| "py_dict (VList xs) = (if xs = [] then Inr (VDict []) else Inl Unmodelled)"
| "py_dict (VTuple xs) = (if xs = [] then Inr (VDict []) else Inl Unmodelled)"
| "py_dict (VStr s) = (if s = [] then Inr (VDict []) else Inl ValueError)"
| "py_dict v = Inl TypeError"

definition py_builtin :: "string \<Rightarrow> pyval \<Rightarrow> error + pyval" where
  "py_builtin f v =
     (if f = ''str'' then py_str v
      else if f = ''int'' then py_int v
      else if f = ''float'' then py_float v
      else if f = ''bool'' then Inr (VBool (py_truth v))
      else if f = ''dict'' then py_dict v
      else if f = ''typing.Any'' then Inl TypeError
      else Inl NameError)"

text \<open>
  The emitted code calls \<open>to_json\<close> on values of referenced types and \<open>from_json\<close> on
  referenced classes, which live in other emitted units. Their behaviour is a
  parameter of the semantics: \<open>host_to_json h v\<close> is \<open>v.to_json()\<close> and
  \<open>host_from_json h c v\<close> is \<open>c.from_json(v)\<close>. So are the names that the
  other units of the module bind at its top level, \<open>host_module_names h\<close>: one of
  them may hide a builtin or a name of the module header that a unit reads. The other
  units are taken to be definitions that Python accepts: a module with one that it
  rejects cannot be imported at all.
\<close>

record host =
  host_to_json :: "pyval \<Rightarrow> error + pyval"
  host_from_json :: "string \<Rightarrow> pyval \<Rightarrow> error + pyval"
  host_module_names :: "string list"

text \<open>Expressions, in a frame of the attributes of \<open>self\<close> and of the local names.
  The loop variable of a comprehension is local to it.\<close>

fun eval_expr :: "host \<Rightarrow> (string \<times> pyval) list \<Rightarrow> (string \<times> pyval) list \<Rightarrow> expr
    \<Rightarrow> error + pyval" where
  "eval_expr h self locals (Name x) =
     (case map_of locals x of Some v \<Rightarrow> Inr v | None \<Rightarrow> Inl NameError)"
| "eval_expr h self locals (SelfAttr x) =
     (case map_of self x of Some v \<Rightarrow> Inr v | None \<Rightarrow> Inl AttributeError)"
| "eval_expr h self locals NoneLit = Inr VNone"
| "eval_expr h self locals (Subscript d k) =
     (case map_of locals d of
        None \<Rightarrow> Inl NameError
      | Some (VDict kv) \<Rightarrow> (case map_of kv k of Some v \<Rightarrow> Inr v | None \<Rightarrow> Inl KeyError)
      | Some _ \<Rightarrow> Inl TypeError)"
| "eval_expr h self locals (KeyIn k d) =
     (case map_of locals d of None \<Rightarrow> Inl NameError | Some v \<Rightarrow> py_contains v k)"
| "eval_expr h self locals (IsNotNone e) =
     (case eval_expr h self locals e of
        Inl err \<Rightarrow> Inl err
      | Inr v \<Rightarrow> Inr (VBool (v \<noteq> VNone)))"
| "eval_expr h self locals (ToJson e) =
     (case eval_expr h self locals e of Inl err \<Rightarrow> Inl err | Inr v \<Rightarrow> host_to_json h v)"
| "eval_expr h self locals (FromJson c e) =
     (case eval_expr h self locals e of Inl err \<Rightarrow> Inl err | Inr v \<Rightarrow> host_from_json h c v)"
| "eval_expr h self locals (Conv f e) =
     (case eval_expr h self locals e of Inl err \<Rightarrow> Inl err | Inr v \<Rightarrow> py_builtin f v)"
| "eval_expr h self locals (ListComp el it) =
     (case eval_expr h self locals it of
        Inl err \<Rightarrow> Inl err
      | Inr v \<Rightarrow>
          (case py_iter v of
             Inl err \<Rightarrow> Inl err
           | Inr xs \<Rightarrow>
               (case emap (\<lambda>x. eval_expr h self ((''i'', x) # locals) el) xs of
                  Inl err \<Rightarrow> Inl err
                | Inr ys \<Rightarrow> Inr (VList ys))))"
| "eval_expr h self locals (IfExp a c b) =
     (case eval_expr h self locals c of
        Inl err \<Rightarrow> Inl err
      | Inr v \<Rightarrow> (if py_truth v then eval_expr h self locals a
                   else eval_expr h self locals b))"

text \<open>Statements return the frame of local names as they leave it. The right-hand
  side of an assignment is evaluated before its target.\<close>

fun exec_stmt :: "host \<Rightarrow> (string \<times> pyval) list \<Rightarrow> (string \<times> pyval) list \<Rightarrow> stmt
    \<Rightarrow> error + (string \<times> pyval) list" where
  "exec_stmt h self locals (SetItem d k e) =
     (case eval_expr h self locals e of
        Inl err \<Rightarrow> Inl err
      | Inr v \<Rightarrow>
          (case map_of locals d of
             None \<Rightarrow> Inl NameError
           | Some (VDict kv) \<Rightarrow> Inr (dict_set locals d (VDict (dict_set kv k v)))
           | Some _ \<Rightarrow> Inl TypeError))"
| "exec_stmt h self locals (IfStmt c s) =
     (case eval_expr h self locals c of
        Inl err \<Rightarrow> Inl err
      | Inr v \<Rightarrow> (if py_truth v then exec_stmt h self locals s else Inr locals))"

fun exec_stmts :: "host \<Rightarrow> (string \<times> pyval) list \<Rightarrow> (string \<times> pyval) list \<Rightarrow> stmt list
    \<Rightarrow> error + (string \<times> pyval) list" where
  "exec_stmts h self locals [] = Inr locals"
| "exec_stmts h self locals (s # ss) =
     (case exec_stmt h self locals s of
        Inl err \<Rightarrow> Inl err
      | Inr locals' \<Rightarrow> exec_stmts h self locals' ss)"

text \<open>
  The constructor that \<open>@dataclass\<close> generates, called with keyword arguments: a
  keyword that names no field, and a field without default that no keyword gives,
  raise \<open>TypeError\<close>; a field with the default \<open>None\<close> that no keyword gives is
  \<open>None\<close>.
\<close>

definition construct :: "string \<Rightarrow> decl list \<Rightarrow> (string \<times> pyval) list \<Rightarrow> error + pyval" where
  "construct cname flds kwargs =
     (if list_ex (\<lambda>(k, v). \<not> List.member (map decl_name flds) k) kwargs
      then Inl TypeError
      else ebind
             (emap (\<lambda>f. case map_of kwargs (decl_name f) of
                           Some v \<Rightarrow> Inr (decl_name f, v)
                         | None \<Rightarrow> (if decl_default f then Inr (decl_name f, VNone)
                                     else Inl TypeError))
                flds)
             (\<lambda>fs. Inr (VObj cname fs)))"

definition eval_kwargs :: "host \<Rightarrow> (string \<times> pyval) list \<Rightarrow> (string \<times> expr) list
    \<Rightarrow> error + (string \<times> pyval) list" where
  "eval_kwargs h locals kwargs =
     emap (\<lambda>(k, e). ebind (eval_expr h [] locals e) (\<lambda>v. Inr (k, v))) kwargs"

text \<open>The methods of an emitted dataclass: \<open>to_json\<close> of an instance with the given
  attributes, and \<open>from_json\<close> of the class on a wire value.\<close>

definition class_run_to_json :: "host \<Rightarrow> py_class \<Rightarrow> (string \<times> pyval) list \<Rightarrow> error + pyval"
  where
  "class_run_to_json h c self =
     ebind (exec_stmts h self [(''json'', VDict [])] (class_to_json c))
       (\<lambda>locals. case map_of locals ''json'' of Some v \<Rightarrow> Inr v | None \<Rightarrow> Inl NameError)"

definition class_run_from_json :: "host \<Rightarrow> py_class \<Rightarrow> pyval \<Rightarrow> error + pyval" where
  "class_run_from_json h c json =
     ebind (eval_kwargs h [(''json'', json)] (class_from_json c))
       (construct (class_name c) (class_fields c))"

definition event_run_from_json :: "host \<Rightarrow> py_event \<Rightarrow> pyval \<Rightarrow> error + pyval" where
  "event_run_from_json h e json =
     ebind (eval_kwargs h [(''json'', json)] (ev_from_json e))
       (construct (ev_name e) (ev_fields e))"

section \<open>Which emitted definitions Python accepts\<close>

text \<open>
  Python compiles a module before it runs it, and it runs a \<open>class\<close> or \<open>def\<close>
  statement before anything can call what the statement defines. An emitted
  enumeration or command has a behaviour only if both succeed; this section decides
  when they do, on a fragment of Python: names made of ASCII letters, digits and
  underscores, texts that a quoted literal holds unchanged (printable ASCII without
  the backslash and without the quote), annotations of the forms that the emitter
  writes. On a definition outside the fragment the result is \<open>Unmodelled\<close>.
  (The run-time functions of composite types and events above take the emitted class
  as given; the theorems that evaluate them are stated at example schemas whose names
  are plain identifiers.)

  A name of the fragment is a word. A word is an identifier unless it is empty or
  starts with a digit; where the emitter writes a word that is no identifier in the
  place of a name, the text is no Python (\<open>SyntaxError\<close>).
\<close>

definition is_word :: "string \<Rightarrow> bool" where
  "is_word s = list_all (\<lambda>d. is_upper d \<or> is_lower d \<or> is_digit d \<or> d = CHR ''_'') s"

definition is_identifier :: "string \<Rightarrow> bool" where
  "is_identifier s =
     (case s of
        [] \<Rightarrow> False
      | c # cs \<Rightarrow> (is_upper c \<or> is_lower c \<or> c = CHR ''_'')
                  \<and> list_all (\<lambda>d. is_upper d \<or> is_lower d \<or> is_digit d \<or> d = CHR ''_'') cs)"

text \<open>The keywords of Python 3.7 and later. Neither a keyword nor \<open>__debug__\<close> can be
  the name of a class, of a function or of a parameter: \<open>SyntaxError\<close>.\<close>

definition python_keywords :: "string list" where
  "python_keywords = [''False'', ''None'', ''True'', ''and'', ''as'', ''assert'', ''async'', ''await'',
     ''break'', ''class'', ''continue'', ''def'', ''del'', ''elif'', ''else'', ''except'',
     ''finally'', ''for'', ''from'', ''global'', ''if'', ''import'', ''in'', ''is'', ''lambda'',
     ''nonlocal'', ''not'', ''or'', ''pass'', ''raise'', ''return'', ''try'', ''while'', ''with'',
     ''yield'']"

definition unbindable :: "string \<Rightarrow> bool" where
  "unbindable s = (List.member python_keywords s \<or> s = ''__debug__'')"

definition name_ok :: "string \<Rightarrow> bool" where
  "name_ok x = (is_identifier x \<and> \<not> unbindable x)"

text \<open>A dotted name, as the emitter writes a reference into an expression or a quoted
  annotation: \<open>RequestId\<close>, \<open>network.RequestId\<close>.\<close>

definition dotted_name :: "string \<Rightarrow> bool" where
  "dotted_name s = list_all name_ok (split_on CHR ''.'' s)"

text \<open>The text between the quotes \<open>q\<close> of a literal that holds it unchanged.\<close>

definition plain_char :: "char \<Rightarrow> bool" where
  "plain_char c = (32 \<le> (of_char c :: nat) \<and> (of_char c :: nat) \<le> 126 \<and> c \<noteq> CHR 0x5C)"

definition literal_ok :: "char \<Rightarrow> string \<Rightarrow> bool" where
  "literal_ok q s = list_all (\<lambda>c. plain_char c \<and> c \<noteq> q) s"

text \<open>\<open>unwrap pre suf s\<close> is the text between \<open>pre\<close> and \<open>suf\<close>, if \<open>s\<close> starts
  with the one and ends with the other.\<close>

definition unwrap :: "string \<Rightarrow> string \<Rightarrow> string \<Rightarrow> string option" where
  "unwrap pre suf s =
     (if length pre + length suf \<le> length s \<and> take (length pre) s = pre
         \<and> drop (length s - length suf) s = suf
      then Some (take (length s - length pre - length suf) (drop (length pre) s))
      else None)"

text \<open>A docstring as \<open>docstring\<close> writes it: none, or three quotes, a line break, a
  text of plain characters and line breaks without three quotes in a row, a line break
  and three quotes.\<close>

definition docstring_ok :: "string \<Rightarrow> bool" where
  "docstring_ok s =
     (s = [] \<or>
      (case unwrap (sq @ sq @ sq @ [CHR 0x0A]) (CHR 0x0A # sq @ sq @ sq) s of
         None \<Rightarrow> False
       | Some body \<Rightarrow> list_all (\<lambda>c. plain_char c \<or> c = CHR 0x0A) body
                        \<and> \<not> contains body (sq @ sq @ sq)))"

text \<open>
  The annotations of a \<open>def\<close> are evaluated when the statement runs. The emitter
  writes a value of \<open>CdpPrimitiveType\<close> or a quoted reference, inside
  \<open>typing.List[...]\<close> for a repeated value, inside \<open>typing.Optional[...]\<close> for an
  optional parameter; and for the result \<open>typing.Generator[T_JSON_DICT,T_JSON_DICT,r]\<close>
  with \<open>r\<close> one of these, \<open>None\<close>, or a \<open>typing.Tuple\<close> of them. A quoted reference
  inside a \<open>typing\<close> form is compiled as an expression: a dotted name is one.
\<close>

definition prim_names :: "string list" where
  "prim_names = [''typing.Any'', ''bool'', ''int'', ''float'', ''dict'', ''str'']"

definition item_ann_ok :: "string \<Rightarrow> bool" where
  "item_ann_ok a =
     (List.member prim_names a
      \<or> (case unwrap sq sq a of None \<Rightarrow> False | Some r \<Rightarrow> dotted_name r))"

definition base_ann_ok :: "string \<Rightarrow> bool" where
  "base_ann_ok a =
     (item_ann_ok a
      \<or> (case unwrap ''typing.List['' '']'' a of None \<Rightarrow> False | Some x \<Rightarrow> item_ann_ok x))"

definition param_ann_ok :: "string \<Rightarrow> bool" where
  "param_ann_ok a =
     (base_ann_ok a
      \<or> (case unwrap ''typing.Optional['' '']'' a of None \<Rightarrow> False | Some x \<Rightarrow> base_ann_ok x))"

definition tuple_parts :: "string \<Rightarrow> string list option" where
  "tuple_parts ts =
     (case split_on CHR '','' ts of
        [] \<Rightarrow> None
      | p # ps \<Rightarrow> (if list_all (\<lambda>q. starts_with q '' '') ps then Some (p # map tl ps)
                   else None))"

definition ret_ann_ok :: "string \<Rightarrow> bool" where
  "ret_ann_ok a =
     (case unwrap ''typing.Generator[T_JSON_DICT,T_JSON_DICT,'' '']'' a of
        None \<Rightarrow> False
      | Some r \<Rightarrow>
          r = ''None'' \<or> base_ann_ok r
          \<or> (case unwrap ''typing.Tuple['' '']'' r of
                None \<Rightarrow> False
              | Some ts \<Rightarrow> (case tuple_parts ts of
                              None \<Rightarrow> False
                            | Some parts \<Rightarrow> list_all base_ann_ok parts)))"

text \<open>The expressions and statements of a body, in the shapes that the emitter
  writes: their names are identifiers that can be bound, their keys fit a literal in
  single quotes, their classes are dotted names, their conversions are values of
  \<open>CdpPrimitiveType\<close>.\<close>

fun expr_ok :: "expr \<Rightarrow> bool" where
  "expr_ok (Name x) = name_ok x"
| "expr_ok (SelfAttr x) = name_ok x"
| "expr_ok NoneLit = True"
| "expr_ok (Subscript d k) = (name_ok d \<and> literal_ok (CHR 0x27) k)"
| "expr_ok (KeyIn k d) = (literal_ok (CHR 0x27) k \<and> name_ok d)"
| "expr_ok (IsNotNone e) = expr_ok e"
| "expr_ok (ToJson e) = expr_ok e"
| "expr_ok (FromJson c e) = (dotted_name c \<and> expr_ok e)"
| "expr_ok (Conv f e) = (List.member prim_names f \<and> expr_ok e)"
| "expr_ok (ListComp el it) = (expr_ok el \<and> expr_ok it)"
| "expr_ok (IfExp a c b) = (expr_ok a \<and> expr_ok c \<and> expr_ok b)"

fun stmt_ok :: "stmt \<Rightarrow> bool" where
  "stmt_ok (SetItem d k e) = (name_ok d \<and> literal_ok (CHR 0x27) k \<and> expr_ok e)"
| "stmt_ok (IfStmt c s) = (expr_ok c \<and> stmt_ok s)"

text \<open>
  The parameter list of a \<open>def\<close>. Python rejects it with \<open>SyntaxError\<close> when a name
  is no identifier or cannot be bound, when two parameters have the same name, and
  when a parameter without default follows one with a default.
\<close>

fun defaults_last :: "py_param list \<Rightarrow> bool" where
  "defaults_last [] = True"
| "defaults_last (p # ps) =
     (if param_default p then list_all param_default ps else defaults_last ps)"

definition params_check :: "py_param list \<Rightarrow> error option" where
  "params_check ps =
     (if \<not> list_all (\<lambda>p. is_word (param_name p) \<and> param_ann_ok (param_type p)) ps
      then Some Unmodelled
      else if list_ex (\<lambda>p. \<not> name_ok (param_name p)) ps \<or> \<not> distinct (map param_name ps)
              \<or> \<not> defaults_last ps
      then Some SyntaxError
      else None)"

text \<open>
  The names that an emitted command reads from its module: those of the module header
  and the builtins behind \<open>CdpPrimitiveType\<close>. The \<open>def\<close> statement of a command:
  \<open>def_check\<close> is what compiling and running it raises, \<open>None\<close> when Python
  accepts it and the names above mean what the header and the builtins give them.
\<close>

definition header_names :: "string list" where
  "header_names = [''typing'', ''T_JSON_DICT'', ''dict'', ''str'', ''int'', ''float'', ''bool'']"

definition def_check :: "host \<Rightarrow> py_command \<Rightarrow> error option" where
  "def_check h f =
     (if \<not> (is_word (fn_name f) \<and> ret_ann_ok (fn_ret_type f) \<and> docstring_ok (fn_doc f)
             \<and> literal_ok (CHR 0x27) (fn_method f))
      then Some Unmodelled
      else (case params_check (fn_params f) of
              Some err \<Rightarrow> Some err
            | None \<Rightarrow>
                (if \<not> name_ok (fn_name f) then Some SyntaxError
                 else if \<not> (list_all stmt_ok (fn_assigns f) \<and> list_all expr_ok (fn_returns f))
                 then Some Unmodelled
                 else if List.member header_names (fn_name f)
                         \<or> list_ex (List.member (host_module_names h)) header_names
                 then Some Unmodelled
                 else None)))"

text \<open>
  A parameter hides a name of the module inside the body. \<open>captures\<close> lists the
  parameters that hide a name the body reads: \<open>params\<close> (the local dictionary), a name
  of \<open>header_names\<close>, or the first component of a class that a return decodes with.
\<close>

fun expr_classes :: "expr \<Rightarrow> string list" where
  "expr_classes (FromJson c e) = c # expr_classes e"
| "expr_classes (IsNotNone e) = expr_classes e"
| "expr_classes (ToJson e) = expr_classes e"
| "expr_classes (Conv f e) = expr_classes e"
| "expr_classes (ListComp el it) = expr_classes el @ expr_classes it"
| "expr_classes (IfExp a c b) = expr_classes a @ expr_classes c @ expr_classes b"
| "expr_classes e = []"

definition class_root :: "string \<Rightarrow> string" where
  "class_root c = (case split_on CHR ''.'' c of r # rs \<Rightarrow> r | [] \<Rightarrow> [])"

definition captures :: "py_command \<Rightarrow> string list" where
  "captures f =
     filter (List.member (''params'' # header_names
                          @ map class_root (concat (map expr_classes (fn_returns f)))))
       (map param_name (fn_params f))"

definition command_accepted :: "host \<Rightarrow> py_command \<Rightarrow> bool" where
  "command_accepted h f = (def_check h f = None \<and> captures f = [])"

text \<open>
  The \<open>class\<close> statement of an enumeration runs its body in an \<open>enum\<close> namespace,
  assignment by assignment. A name with two leading and two trailing underscores is an
  attribute of the class and no member; a name with one leading and one trailing
  underscore is reserved (\<open>ValueError\<close>); a name that is already a member raises
  \<open>TypeError\<close>. Other names with a leading underscore are left to \<open>Unmodelled\<close> (Python
  rewrites some of them). The result is the table of the members and their values.
  \<^verbatim>\<open>
  def _is_dunder(name):
      return (len(name) > 4 and name[:2] == name[-2:] == '__' and
              name[2] != '_' and name[-3] != '_')
  def _is_sunder(name):
      return (len(name) > 2 and name[0] == name[-1] == '_' and
              name[1:2] != '_' and name[-2:-1] != '_')
  \<close>
\<close>

definition is_dunder :: "string \<Rightarrow> bool" where
  "is_dunder n =
     (4 < length n \<and> take 2 n = ''__'' \<and> drop (length n - 2) n = ''__''
      \<and> n ! 2 \<noteq> CHR ''_'' \<and> n ! (length n - 3) \<noteq> CHR ''_'')"

definition is_sunder :: "string \<Rightarrow> bool" where
  "is_sunder n =
     (2 < length n \<and> n ! 0 = CHR ''_'' \<and> n ! (length n - 1) = CHR ''_''
      \<and> n ! 1 \<noteq> CHR ''_'' \<and> n ! (length n - 2) \<noteq> CHR ''_'')"

fun enum_body :: "(string \<times> string) list \<Rightarrow> string list \<Rightarrow> error + (string \<times> string) list"
  where
  "enum_body [] seen = Inr []"
| "enum_body ((n, v) # ms) seen =
     (if is_dunder n then enum_body ms seen
      else if is_sunder n then Inl ValueError
      else if starts_with n ''_'' then Inl Unmodelled
      else if List.member seen n then Inl TypeError
      else (case enum_body ms (n # seen) of
              Inl err \<Rightarrow> Inl err
            | Inr rest \<Rightarrow> Inr ((n, v) # rest)))"

text \<open>
  \<open>enum_class h doc e\<close> compiles and runs the class statement of the enumeration
  \<open>e\<close> with the docstring \<open>doc\<close>. The emitter writes member names in upper case and
  values between double quotes; a member name with a lower-case letter could be that
  of a method of the class and is left to \<open>Unmodelled\<close>. The body reads \<open>enum\<close>,
  \<open>str\<close> and \<open>classmethod\<close> from the module.
\<close>

definition enum_class :: "host \<Rightarrow> string \<Rightarrow> py_enum \<Rightarrow> error + (string \<times> string) list" where
  "enum_class h doc e =
     (if \<not> (is_word (enum_name e) \<and> docstring_ok doc
             \<and> list_all (\<lambda>(n, v). is_word n \<and> list_all (\<lambda>c. \<not> is_lower c) n
                                    \<and> literal_ok (CHR 0x22) v) (enum_members e))
      then Inl Unmodelled
      else if \<not> name_ok (enum_name e) \<or> list_ex (\<lambda>(n, v). \<not> is_identifier n) (enum_members e)
      then Inl SyntaxError
      else if list_ex (List.member (host_module_names h)) [''enum'', ''str'', ''classmethod'']
      then Inl Unmodelled
      else enum_body (enum_members e) [])"

text \<open>The enumerations for which the theorem on closure is stated: Python accepts
  the class, and every variant is a member of it.\<close>

definition enum_accepted :: "host \<Rightarrow> string \<Rightarrow> py_enum \<Rightarrow> bool" where
  "enum_accepted h doc e =
     (name_ok (enum_name e) \<and> docstring_ok doc
      \<and> list_all (\<lambda>(n, v). is_identifier n \<and> list_all (\<lambda>c. \<not> is_lower c) n
                             \<and> \<not> starts_with n ''_'' \<and> literal_ok (CHR 0x22) v) (enum_members e)
      \<and> distinct (map fst (enum_members e))
      \<and> \<not> list_ex (List.member (host_module_names h)) [''enum'', ''str'', ''classmethod''])"

section \<open>Enumerations and commands at run time\<close>

text \<open>
  An emitted enumeration, once its class exists: \<open>to_json\<close> of a member is its value;
  \<open>from_json\<close> is \<open>cls(json)\<close>, the member whose value equals \<open>json\<close>, and
  \<open>ValueError\<close> if there is none.
\<close>

definition enum_run_to_json :: "host \<Rightarrow> string \<Rightarrow> py_enum \<Rightarrow> pyval \<Rightarrow> error + pyval" where
  "enum_run_to_json h doc e v =
     (case enum_class h doc e of
        Inl err \<Rightarrow> Inl err
      | Inr members \<Rightarrow>
          (case v of VEnum c s \<Rightarrow> Inr (VStr s) | _ \<Rightarrow> Inl AttributeError))"

definition enum_run_from_json :: "host \<Rightarrow> string \<Rightarrow> py_enum \<Rightarrow> pyval \<Rightarrow> error + pyval" where
  "enum_run_from_json h doc e json =
     (case enum_class h doc e of
        Inl err \<Rightarrow> Inl err
      | Inr members \<Rightarrow>
          (case json of
             VStr s \<Rightarrow> (if List.member (map snd members) s
                         then Inr (VEnum (enum_name e) s) else Inl ValueError)
           | VEnum c s \<Rightarrow> (if c = enum_name e \<and> List.member (map snd members) s
                            then Inr (VEnum c s) else Inl ValueError)
           | _ \<Rightarrow> Inl ValueError))"

text \<open>
  An emitted command is a generator function. \<open>command_start\<close> calls it with keyword
  arguments and runs it to its \<open>yield\<close>: the result is the request it yields.
  \<open>command_resume\<close> sends the response into the suspended generator and runs it to
  its end: the result is the value it returns, \<open>None\<close> when it has no \<open>return\<close>.
  Neither has a result unless Python accepts the definition.

  \<open>bind_args\<close> is the call: the keyword arguments as the caller writes them (a
  repeated keyword is a \<open>SyntaxError\<close> there), bound to the parameters; a keyword that
  names no parameter, and a parameter without default that no keyword gives, raise
  \<open>TypeError\<close>.

  The first statement of a body with parameters is \<open>params: T_JSON_DICT = dict()\<close>.
  The name \<open>dict\<close> is that of a parameter if there is one: the call then applies the
  argument, and no value of this model can be called (\<open>TypeError\<close>). For any other
  captured name the result is \<open>Unmodelled\<close>.
\<close>

definition bind_args :: "py_param list \<Rightarrow> (string \<times> pyval) list
    \<Rightarrow> error + (string \<times> pyval) list" where
  "bind_args params args =
     (case params_check params of
        Some err \<Rightarrow> Inl err
      | None \<Rightarrow>
          (if \<not> distinct (map fst args) then Inl SyntaxError
           else if list_ex (\<lambda>(k, v). \<not> List.member (map param_name params) k) args
           then Inl TypeError
           else emap (\<lambda>p. case map_of args (param_name p) of
                             Some v \<Rightarrow> Inr (param_name p, v)
                           | None \<Rightarrow> (if param_default p then Inr (param_name p, VNone)
                                       else Inl TypeError))
                  params))"

definition command_start :: "host \<Rightarrow> py_command \<Rightarrow> (string \<times> pyval) list \<Rightarrow> error + pyval"
  where
  "command_start h f args =
     (case def_check h f of
        Some err \<Rightarrow> Inl err
      | None \<Rightarrow>
          ebind (bind_args (fn_params f) args) (\<lambda>frame.
          if fn_attach_params f \<and> List.member (map fst frame) ''dict'' then Inl TypeError
          else if captures f \<noteq> [] then Inl Unmodelled
          else
            ebind (exec_stmts h []
                     (if fn_attach_params f then dict_set frame ''params'' (VDict [])
                      else frame)
                     (fn_assigns f)) (\<lambda>locals.
            ebind (if fn_attach_params f
                   then (case map_of locals ''params'' of
                           Some v \<Rightarrow> Inr [(''params'', v)]
                         | None \<Rightarrow> Inl NameError)
                   else Inr []) (\<lambda>ps.
            Inr (VDict ((''method'', VStr (fn_method f)) # ps))))))"

definition command_resume :: "host \<Rightarrow> py_command \<Rightarrow> pyval \<Rightarrow> error + pyval" where
  "command_resume h f response =
     (case def_check h f of
        Some err \<Rightarrow> Inl err
      | None \<Rightarrow>
          (if captures f \<noteq> [] then Inl Unmodelled
           else (case fn_returns f of
                   [] \<Rightarrow> Inr VNone
                 | [e] \<Rightarrow> eval_expr h [] [(''json'', response)] e
                 | es \<Rightarrow> ebind (emap (eval_expr h [] [(''json'', response)]) es)
                           (\<lambda>vs. Inr (VTuple vs)))))"

text \<open>A host with no referenced types and no other unit at all.\<close>

definition no_host :: host where
  "no_host = \<lparr>host_to_json = (\<lambda>v. Inl AttributeError),
              host_from_json = (\<lambda>c v. Inl NameError),
              host_module_names = []\<rparr>"

section \<open>The request of a command, in the words of the specification\<close>

text \<open>
  The wire encoding of a value of a property (specification, 4.3): a scalar verbatim,
  a value of a referenced type by its own to-wire, a repeated value element by element
  (by the element's to-wire, or verbatim for scalar elements).
\<close>

definition wire_encoding :: "host \<Rightarrow> CdpProperty \<Rightarrow> pyval \<Rightarrow> error + pyval" where
  "wire_encoding h p v =
     (case prop_items p of
        Some it \<Rightarrow>
          (case py_iter v of
             Inl err \<Rightarrow> Inl err
           | Inr xs \<Rightarrow>
               (if truthy (items_ref it)
                then (case emap (host_to_json h) xs of
                        Inl err \<Rightarrow> Inl err
                      | Inr ys \<Rightarrow> Inr (VList ys))
                else Inr (VList xs)))
      | None \<Rightarrow> (if truthy (prop_ref p) then host_to_json h v else Inr v))"

text \<open>
  The params mapping of a request (specification, 4.4): for each parameter in schema
  order, its wire name bound to the wire encoding of the value supplied for it; an
  optional parameter bound to the absent-marker is left out. \<open>frame\<close> holds the
  value supplied for each parameter, under its Python name.
\<close>

fun request_params :: "host \<Rightarrow> (string \<times> pyval) list \<Rightarrow> CdpProperty list
    \<Rightarrow> (string \<times> pyval) list \<Rightarrow> error + (string \<times> pyval) list" where
  "request_params h frame [] acc = Inr acc"
| "request_params h frame (p # ps) acc =
     (case map_of frame (py_name p) of
        None \<Rightarrow> Inl NameError
      | Some v \<Rightarrow>
          (if prop_optional p \<and> v = VNone then request_params h frame ps acc
           else (case wire_encoding h p v of
                   Inl err \<Rightarrow> Inl err
                 | Inr w \<Rightarrow> request_params h frame ps (dict_set acc (prop_name p) w))))"

definition wire_request :: "host \<Rightarrow> CdpCommand \<Rightarrow> (string \<times> pyval) list \<Rightarrow> error + pyval"
  where
  "wire_request h c frame =
     (case request_params h frame (cmd_parameters c) [] of
        Inl err \<Rightarrow> Inl err
      | Inr ps \<Rightarrow>
          Inr (VDict ((''method'', VStr (cmd_domain c @ ''.'' @ cmd_name c))
                 # (if cmd_parameters c = [] then [] else [(''params'', VDict ps)]))))"

text \<open>The right-hand side of the assignment that \<open>generate_to_json\<close> writes for
  a property, as a function of the variable: used to state what it evaluates to.\<close>

definition to_json_rhs :: "CdpProperty \<Rightarrow> expr \<Rightarrow> expr" where
  "to_json_rhs p var =
     (case prop_items p of
        Some it \<Rightarrow>
          (if truthy (items_ref it) then ListComp (ToJson (Name ''i'')) var
           else ListComp (Name ''i'') var)
      | None \<Rightarrow> (if truthy (prop_ref p) then ToJson var else var))"

section \<open>The emitted text of the repository's tests\<close>

text \<open>The members of an emitted unit as the lines of text that the generator writes
  for them, to compare the syntax trees with the expected output of
  \<open>test_generate.py\<close>.\<close>

definition render_decl :: "decl \<Rightarrow> string" where
  "render_decl d =
     decl_name d @ '': '' @ decl_annotation d @ (if decl_default d then '' = None'' else [])"

definition render_param :: "py_param \<Rightarrow> string" where
  "render_param p =
     param_name p @ '': '' @ param_type p @ (if param_default p then '' = None'' else [])"

definition render_kwarg :: "string \<times> expr \<Rightarrow> string" where
  "render_kwarg ke = fst ke @ ''='' @ render_expr (snd ke)"

section \<open>Example schemas\<close>

text \<open>The schemas at which the theorems below are instantiated.\<close>

definition int_prop :: "string \<Rightarrow> bool \<Rightarrow> CdpProperty" where
  "int_prop n opt = \<lparr>prop_name = n, prop_description = None, prop_type = Some ''integer'',
     prop_ref = None, prop_enum = None, prop_items = None, prop_optional = opt\<rparr>"

definition str_prop :: "string \<Rightarrow> bool \<Rightarrow> CdpProperty" where
  "str_prop n opt = \<lparr>prop_name = n, prop_description = None, prop_type = Some ''string'',
     prop_ref = None, prop_enum = None, prop_items = None, prop_optional = opt\<rparr>"


definition plain_prop :: "string \<Rightarrow> string option \<Rightarrow> string option \<Rightarrow> CdpItems option \<Rightarrow> bool
    \<Rightarrow> CdpProperty" where
  "plain_prop n ty r its opt = \<lparr>prop_name = n, prop_description = None, prop_type = ty,
     prop_ref = r, prop_enum = None, prop_items = its, prop_optional = opt\<rparr>"

text \<open>The specification's example of field order: \<open>A\<close> and \<open>C\<close> optional, \<open>B\<close> and
  \<open>D\<close> required.\<close>

definition mixed_type :: CdpType where
  "mixed_type = \<lparr>type_id = ''Mixed'', type_description = None, type_type = Some ''object'',
     type_items = None, type_enum = None,
     type_properties = [int_prop ''A'' True, int_prop ''B'' False,
                        int_prop ''C'' True, int_prop ''D'' False]\<rparr>"


text \<open>A composite type with one required property, \<open>nodeId\<close>, and one optional
  property, \<open>pierceDepth\<close>.\<close>

definition node_query_type :: CdpType where
  "node_query_type = \<lparr>type_id = ''NodeQuery'', type_description = None,
     type_type = Some ''object'', type_items = None, type_enum = None,
     type_properties = [int_prop ''nodeId'' False, int_prop ''pierceDepth'' True]\<rparr>"

text \<open>The enumeration of \<open>test_cdp_enum_type\<close>.\<close>

definition source_type_enum :: CdpType where
  "source_type_enum = \<lparr>type_id = ''AXValueSourceType'',
     type_description = Some ''Enum of possible property sources.'',
     type_type = Some ''string'', type_items = None,
     type_enum = Some [''attribute'', ''implicit'', ''style'', ''contents'',
                       ''placeholder'', ''relatedElement''],
     type_properties = []\<rparr>"

text \<open>The type of \<open>test_cdp_class_type\<close>.\<close>

definition ax_value_type :: CdpType where
  "ax_value_type = \<lparr>type_id = ''AXValue'',
     type_description = Some ''A single computed AX property.'',
     type_type = Some ''object'', type_items = None, type_enum = None,
     type_properties =
       [plain_prop ''type'' None (Some ''AXValueType'') None False,
        plain_prop ''value'' (Some ''any'') None None True,
        plain_prop ''relatedNodes'' (Some ''array'') None
          (Some \<lparr>items_type = None, items_ref = Some ''AXRelatedNode''\<rparr>) True,
        plain_prop ''sources'' (Some ''array'') None
          (Some \<lparr>items_type = None, items_ref = Some ''AXValueSource''\<rparr>) True]\<rparr>"


text \<open>The command of the specification's example: \<open>x\<close> required, \<open>y\<close> optional, no
  returns.\<close>

definition move_command :: CdpCommand where
  "move_command = \<lparr>cmd_name = ''moveTo'', cmd_description = None,
     cmd_experimental = False,
     cmd_parameters = [int_prop ''x'' False, int_prop ''y'' True],
     cmd_returns = [], cmd_domain = ''Input''\<rparr>"

text \<open>The command of \<open>test_cdp_command_no_params_or_returns\<close>.\<close>

definition disable_command :: CdpCommand where
  "disable_command = \<lparr>cmd_name = ''disable'',
     cmd_description = Some ''Disables the accessibility domain.'',
     cmd_experimental = False, cmd_parameters = [], cmd_returns = [],
     cmd_domain = ''Accessibility''\<rparr>"

text \<open>The specification's example of two returns, a text and an integer.\<close>

definition pair_command :: CdpCommand where
  "pair_command = \<lparr>cmd_name = ''getPair'', cmd_description = None,
     cmd_experimental = False, cmd_parameters = [],
     cmd_returns = [str_prop ''p'' False, int_prop ''q'' False],
     cmd_domain = ''Audits''\<rparr>"

text \<open>The returns of \<open>test_cdp_command_multiple_return\<close>: an optional text and two
  integers.\<close>

definition encoded_response_command :: CdpCommand where
  "encoded_response_command = \<lparr>cmd_name = ''getEncodedResponse'', cmd_description = None,
     cmd_experimental = False, cmd_parameters = [],
     cmd_returns = [str_prop ''body'' True, int_prop ''originalSize'' False,
                    int_prop ''encodedSize'' False],
     cmd_domain = ''Audits''\<rparr>"

text \<open>The whole command of \<open>test_cdp_command_multiple_return\<close>.\<close>

definition get_encoded_response :: CdpCommand where
  "get_encoded_response = \<lparr>cmd_name = ''getEncodedResponse'',
     cmd_description = Some (''Returns the response body and size if it were re-encoded with the specified settings. Only''
       @ [CHR 0x0A] @ ''applies to images.''),
     cmd_experimental = False,
     cmd_parameters =
       [(plain_prop ''requestId'' None (Some ''Network.RequestId'') None False)
          \<lparr>prop_description := Some ''Identifier of the network request to get content for.''\<rparr>,
        (plain_prop ''encoding'' (Some ''string'') None None False)
          \<lparr>prop_description := Some ''The encoding to use.'',
           prop_enum := Some [''webp'', ''jpeg'', ''png'']\<rparr>,
        (plain_prop ''quality'' (Some ''number'') None None True)
          \<lparr>prop_description := Some ''The quality of the encoding (0-1). (defaults to 1)''\<rparr>,
        (plain_prop ''sizeOnly'' (Some ''boolean'') None None True)
          \<lparr>prop_description :=
             Some ''Whether to only return the size information (defaults to false).''\<rparr>],
     cmd_returns =
       [(plain_prop ''body'' (Some ''string'') None None True)
          \<lparr>prop_description :=
             Some ''The encoded body as a base64 string. Omitted if sizeOnly is true.''\<rparr>,
        (plain_prop ''originalSize'' (Some ''integer'') None None False)
          \<lparr>prop_description := Some ''Size before re-encoding.''\<rparr>,
        (plain_prop ''encodedSize'' (Some ''integer'') None None False)
          \<lparr>prop_description := Some ''Size after re-encoding.''\<rparr>],
     cmd_domain = ''Audits''\<rparr>"

text \<open>An event whose first parameter is optional and whose second is required.\<close>

definition optional_first_event :: CdpEvent where
  "optional_first_event = \<lparr>event_name = ''frameResized'', event_description = None,
     event_parameters = [int_prop ''A'' True, int_prop ''B'' False],
     event_domain = ''Page''\<rparr>"

text \<open>The event of \<open>test_cdp_event\<close>.\<close>

definition recording_state_changed :: CdpEvent where
  "recording_state_changed = \<lparr>event_name = ''recordingStateChanged'',
     event_description = None,
     event_parameters =
       [plain_prop ''isRecording'' (Some ''boolean'') None None False,
        plain_prop ''service'' None (Some ''ServiceName'') None False],
     event_domain = ''BackgroundService''\<rparr>"

text \<open>An output directory as an earlier run left it, and a schema of version 1.2.\<close>

definition old_outdir :: outdir where
  "old_outdir = \<lparr>od_files = [(''__init__.py'', InitFile [''dom'']),
                               (''dom.py'', OtherFile ''generated earlier'')],
                  od_dirs = [''dom'']\<rparr>"

definition wrong_version_schema :: schema where
  "wrong_version_schema = \<lparr>schema_major = ''1'', schema_minor = ''2'', schema_domains = []\<rparr>"

text \<open>An enumeration two of whose values have the same upper-cased snake case.\<close>

definition clash_enum :: CdpType where
  "clash_enum = \<lparr>type_id = ''Casing'', type_description = None,
     type_type = Some ''string'', type_items = None,
     type_enum = Some [''fooBar'', ''foo_bar''],
     type_properties = []\<rparr>"

text \<open>A command with the given parameters and no returns, and an enumeration with
  the given values.\<close>

definition command_of :: "CdpProperty list \<Rightarrow> CdpCommand" where
  "command_of ps = \<lparr>cmd_name = ''moveTo'', cmd_description = None,
     cmd_experimental = False, cmd_parameters = ps, cmd_returns = [],
     cmd_domain = ''Input''\<rparr>"

definition enum_of :: "string list \<Rightarrow> CdpType" where
  "enum_of vs = \<lparr>type_id = ''Casing'', type_description = None,
     type_type = Some ''string'', type_items = None, type_enum = Some vs,
     type_properties = []\<rparr>"

section \<open>Theorems\<close>


lemma ebind_Inr_iff: "ebind m f = Inr y \<longleftrightarrow> (\<exists>x. m = Inr x \<and> f x = Inr y)"
  by (cases m) (simp_all add: ebind_def)

lemma ebind_Inl: "ebind (Inl e) f = Inl e"
  by (simp add: ebind_def)

lemma ebind_Inr: "ebind (Inr x) f = f x"
  by (simp add: ebind_def)


lemma emap_Inr_map: "emap f xs = Inr ys \<Longrightarrow> map f xs = map Inr ys"
  by (induction xs arbitrary: ys) (auto split: sum.splits)

subsection \<open>A stable sort on a Boolean key\<close>

lemma insort_key_bool_True:
  fixes f :: "'a \<Rightarrow> bool"
  assumes "f x" and "\<forall>u\<in>set us. \<not> f u" and "\<forall>v\<in>set vs. f v"
  shows "insort_key f x (us @ vs) = us @ x # vs"
  using assms
proof (induction us)
  case Nil
  then show ?case by (cases vs) simp_all
next
  case (Cons u us)
  then show ?case by simp
qed

lemma insort_key_bool_False:
  fixes f :: "'a \<Rightarrow> bool"
  assumes "\<not> f x"
  shows "insort_key f x zs = x # zs"
  using assms by (cases zs) simp_all

lemma sort_key_bool:
  fixes f :: "'a \<Rightarrow> bool"
  shows "sort_key f xs = filter (\<lambda>y. \<not> f y) xs @ filter f xs"
proof (induction xs)
  case Nil
  show ?case by simp
next
  case (Cons x xs)
  have step: "sort_key f (x # xs) = insort_key f x (filter (\<lambda>y. \<not> f y) xs @ filter f xs)"
    using Cons by simp
  show ?case
  proof (cases "f x")
    case True
    have "insort_key f x (filter (\<lambda>y. \<not> f y) xs @ filter f xs) =
          filter (\<lambda>y. \<not> f y) xs @ x # filter f xs"
      by (rule insort_key_bool_True) (simp_all add: True)
    with step True show ?thesis by simp
  next
    case False
    have "insort_key f x (filter (\<lambda>y. \<not> f y) xs @ filter f xs) =
          x # filter (\<lambda>y. \<not> f y) xs @ filter f xs"
      by (rule insort_key_bool_False) (rule False)
    with step False show ?thesis by simp
  qed
qed

lemma class_props_eq: "class_props t = required_then_optional (type_properties t)"
  by (simp add: class_props_def required_then_optional_def sort_key_bool)

subsection \<open>Field order of a composite type\<close>

text \<open>
  Claim C2. Whenever a class is emitted for a type, its field declarations are the
  declarations of the required properties, in schema order, followed by those of the
  optional properties, in schema order: the list \<open>props\<close> that the emitter sorts is
  that list, and the emitted fields are its declarations, name by name.
\<close>

theorem class_field_order:
  assumes "generate_class_code t = Inr c"
  shows "emap generate_decl (required_then_optional (type_properties t))
           = Inr (class_fields c)
       \<and> map decl_name (class_fields c)
           = map py_name (required_then_optional (type_properties t))"
proof -
  from assms obtain decls where
    d: "emap generate_decl (class_props t) = Inr decls" and c: "class_fields c = decls"
    unfolding generate_class_code_def by (auto simp: ebind_Inr_iff)
  have names: "map decl_name ds = map py_name ps"
    if "emap generate_decl ps = Inr ds" for ps ds
    using that
    by (induction ps arbitrary: ds)
       (auto split: sum.splits simp: generate_decl_def ebind_Inr_iff)
  show ?thesis
    using d c names[OF d] by (simp add: class_props_eq)
qed

theorem class_field_order_witness:
  "\<exists>c. generate_class_code mixed_type = Inr c
       \<and> map decl_name (class_fields c) = [''b'', ''d'', ''a'', ''c'']"
proof -
  have "\<not> isl (generate_class_code mixed_type)" by code_simp
  then obtain c where g: "generate_class_code mixed_type = Inr c"
    by (cases "generate_class_code mixed_type") auto
  have "map decl_name (class_fields c)
          = map py_name (required_then_optional (type_properties mixed_type))"
    using class_field_order[OF g] by simp
  also have "\<dots> = [''b'', ''d'', ''a'', ''c'']" by code_simp
  finally have n: "map decl_name (class_fields c) = [''b'', ''d'', ''a'', ''c'']" .
  show ?thesis by (rule exI[of _ c]) (simp add: g n)
qed

subsection \<open>Shape classification\<close>




subsection \<open>Reference resolution\<close>


















subsection \<open>Events\<close>

text \<open>
  Claim C7, as the code has it. The fields of an emitted event record are its
  parameters in schema order, none of them with a default value, whether optional or
  not; the record is tagged with the domain and the event name joined by a dot.
\<close>

theorem event_fields_schema_order:
  assumes "event_generate_code ev = Inr e"
  shows "map decl_name (ev_fields e) = map py_name (event_parameters ev)
       \<and> list_all (\<lambda>d. decl_default d = False) (ev_fields e)
       \<and> ev_tag e = event_domain ev @ ''.'' @ event_name ev"
proof -
  from assms obtain decls where
    d: "emap param_generate_decl (event_parameters ev) = Inr decls"
    and f: "ev_fields e = decls"
    and t: "ev_tag e = event_domain ev @ ''.'' @ event_name ev"
    unfolding event_generate_code_def by (auto simp: ebind_Inr_iff)
  have names: "map decl_name ds = map py_name ps \<and> list_all (\<lambda>d. decl_default d = False) ds"
    if "emap param_generate_decl ps = Inr ds" for ps ds
    using that
    by (induction ps arbitrary: ds)
       (auto split: sum.splits simp: param_generate_decl_def ebind_Inr_iff)
  show ?thesis using names[OF d] f t by simp
qed

theorem event_fields_schema_order_witness:
  "\<exists>e. event_generate_code optional_first_event = Inr e
     \<and> map decl_name (ev_fields e) = [''a'', ''b'']
     \<and> ev_tag e = ''Page.frameResized''"
proof -
  have "\<not> isl (event_generate_code optional_first_event)" by code_simp
  then obtain e where g: "event_generate_code optional_first_event = Inr e"
    by (cases "event_generate_code optional_first_event") auto
  have n: "map py_name (event_parameters optional_first_event) = [''a'', ''b'']"
    by code_simp
  have t: "event_domain optional_first_event @ ''.'' @ event_name optional_first_event
             = ''Page.frameResized''"
    by code_simp
  show ?thesis
    using event_fields_schema_order[OF g] n t g by (intro exI[of _ e]) simp
qed

text \<open>The claim as the specification states it, required parameters before optional
  ones, fails on an event whose first parameter is optional.\<close>

theorem event_fields_not_required_first:
  "map_sum id (\<lambda>e. map decl_name (ev_fields e)) (event_generate_code optional_first_event)
     = Inr [''a'', ''b'']
   \<and> map py_name (required_then_optional (event_parameters optional_first_event))
     = [''b'', ''a'']"
  by code_simp

subsection \<open>The driver\<close>

lemma emap_parse_fails:
  "list_ex (\<lambda>s. (schema_major s, schema_minor s) \<noteq> (''1'', ''3'')) schemas
     \<Longrightarrow> emap parse schemas = Inl AssertionError"
proof (induction schemas)
  case Nil
  then show ?case by simp
next
  case (Cons s ss)
  show ?case
  proof (cases "(schema_major s, schema_minor s) = (''1'', ''3'')")
    case True
    have p: "parse s = Inr (schema_domains s)" using True by (simp add: parse_def)
    have "emap parse ss = Inl AssertionError" using Cons True by simp
    then show ?thesis by (simp add: p)
  next
    case False
    then have "parse s = Inl AssertionError" by (simp add: parse_def)
    then show ?thesis by simp
  qed
qed

text \<open>
  Claim C9, as the code has it. When some schema has a version pair other than
  \<open>("1","3")\<close> the run ends in \<open>AssertionError\<close> and writes no module, index or marker
  file; but the output directory has by then been created and cleared, and is left
  so: \<open>__init__.py\<close> and every subdirectory are gone.
\<close>

theorem main_version_mismatch:
  assumes "list_ex (\<lambda>s. (schema_major s, schema_minor s) \<noteq> (''1'', ''3'')) schemas"
  shows "main schemas od = (Some AssertionError, clear_dirs (mkdir od))"
  using emap_parse_fails[OF assms] by (simp add: main_def)

theorem main_version_mismatch_witness:
  "main [wrong_version_schema] (Some old_outdir)
     = (Some AssertionError,
        \<lparr>od_files = [(''dom.py'', OtherFile ''generated earlier'')], od_dirs = []\<rparr>)"
proof -
  have h: "list_ex (\<lambda>s. (schema_major s, schema_minor s) \<noteq> (''1'', ''3''))
             [wrong_version_schema]"
    by code_simp
  have c: "clear_dirs (mkdir (Some old_outdir))
             = \<lparr>od_files = [(''dom.py'', OtherFile ''generated earlier'')], od_dirs = []\<rparr>"
    by code_simp
  show ?thesis using main_version_mismatch[OF h, of "Some old_outdir"] c by simp
qed

text \<open>The claim as the specification states it, an atomic run that leaves the output
  directory as it was, fails: the directory is cleared before the version is read.\<close>

theorem main_not_atomic:
  "fst (main [wrong_version_schema] (Some old_outdir)) = Some AssertionError
   \<and> snd (main [wrong_version_schema] (Some old_outdir)) \<noteq> old_outdir"
  by code_simp

subsection \<open>Composite types at run time\<close>

text \<open>What holds of a single optional property, whatever the class around it: its
  assignment in \<open>to_json\<close> does nothing when the attribute is \<open>None\<close>, and its
  expression in \<open>from_json\<close> is \<open>None\<close> when the wire object lacks the key.\<close>

lemma optional_to_json_skips:
  assumes "prop_optional p" and "map_of self (py_name p) = Some VNone"
  shows "exec_stmt h self locals (generate_to_json p d True) = Inr locals"
  using assms by (simp add: generate_to_json_def Let_def)

lemma optional_from_json_absent:
  assumes "prop_optional p" and "generate_from_json p d = Inr e"
    and "map_of locals d = Some (VDict kv)" and "map_of kv (prop_name p) = None"
  shows "eval_expr h self locals e = Inr VNone"
proof -
  from assms(1,2) obtain e0 where "e = IfExp e0 (KeyIn (prop_name p) d) NoneLit"
    by (auto simp: generate_from_json_def ebind_Inr_iff)
  moreover have "\<not> List.member (map fst kv) (prop_name p)"
    using assms(4) by (simp add: map_of_eq_None_iff)
  ultimately show ?thesis using assms(3) by simp
qed

text \<open>
  Claim C1 fails on the code. The class emitted for a type with the property
  \<open>nodeId\<close> declares the field \<open>node_id\<close> and calls its constructor with the keyword
  \<open>nodeId\<close>: \<open>to_json\<close> of an instance gives the wire object, and \<open>from_json\<close> of
  that wire object raises \<open>TypeError\<close> instead of giving the instance back.
\<close>

theorem class_from_json_keyword_mismatch:
  "map_sum id (\<lambda>c. (map decl_name (class_fields c), map fst (class_from_json c)))
       (generate_class_code node_query_type)
     = Inr ([''node_id'', ''pierce_depth''], [''nodeId'', ''pierceDepth''])
   \<and> ebind (generate_class_code node_query_type)
         (\<lambda>c. class_run_to_json no_host c [(''node_id'', VInt 7), (''pierce_depth'', VInt 2)])
     = Inr (VDict [(''nodeId'', VInt 7), (''pierceDepth'', VInt 2)])
   \<and> ebind (generate_class_code node_query_type)
         (\<lambda>c. class_run_from_json no_host c
                (VDict [(''nodeId'', VInt 7), (''pierceDepth'', VInt 2)]))
     = Inl TypeError"
  by code_simp

text \<open>
  Claim C4 fails on the code, from the same keyword names. With the optional
  attribute \<open>None\<close>, \<open>to_json\<close> leaves its key out, as claimed; but \<open>from_json\<close> of
  a wire object without the key raises \<open>TypeError\<close> and binds nothing.
\<close>

theorem optional_absent_from_json_raises:
  "ebind (generate_class_code node_query_type)
         (\<lambda>c. class_run_to_json no_host c [(''node_id'', VInt 7), (''pierce_depth'', VNone)])
     = Inr (VDict [(''nodeId'', VInt 7)])
   \<and> ebind (generate_class_code node_query_type)
         (\<lambda>c. class_run_from_json no_host c (VDict [(''nodeId'', VInt 7)]))
     = Inl TypeError"
  by code_simp

subsection \<open>Returns of a command\<close>

text \<open>
  Claim C6 fails on the code. \<open>generate_return\<close> wraps the whole expression of a
  return of primitive type in the conversion, the test for the key included: an
  optional text that the response lacks is decoded as the text \<open>'None'\<close>, not as
  \<open>None\<close> (and an optional integer would raise \<open>TypeError\<close>). The other parts hold:
  two required returns decode to a pair in schema order.
\<close>

theorem optional_return_absent_is_text:
  "map_sum id (\<lambda>f. map render_expr (fn_returns f)) (cmd_generate_code encoded_response_command)
     = Inr [''str(json['' @ sq @ ''body'' @ sq @ ''] if '' @ sq @ ''body'' @ sq
              @ '' in json else None)'',
            ''int(json['' @ sq @ ''originalSize'' @ sq @ ''])'',
            ''int(json['' @ sq @ ''encodedSize'' @ sq @ ''])'']
   \<and> ebind (cmd_generate_code encoded_response_command)
         (\<lambda>f. command_resume no_host f
                (VDict [(''originalSize'', VInt 10), (''encodedSize'', VInt 4)]))
     = Inr (VTuple [VStr ''None'', VInt 10, VInt 4])
   \<and> ebind (cmd_generate_code pair_command)
         (\<lambda>f. command_resume no_host f (VDict [(''p'', VStr ''v''), (''q'', VInt 3)]))
     = Inr (VTuple [VStr ''v'', VInt 3])"
  by code_simp

subsection \<open>Enumerations at run time\<close>

lemma plain_name_not_special:
  assumes "\<not> starts_with n ''_''"
  shows "\<not> is_dunder n" and "\<not> is_sunder n"
  using assms
  by (cases n; simp add: is_dunder_def is_sunder_def numeral_2_eq_2)+

lemma enum_body_members:
  assumes "list_all (\<lambda>(n, v). \<not> starts_with n ''_'') ms"
    and "distinct (map fst ms)"
    and "set (map fst ms) \<inter> set seen = {}"
  shows "enum_body ms seen = Inr ms"
  using assms
proof (induction ms arbitrary: seen)
  case Nil
  then show ?case by simp
next
  case (Cons m ms)
  obtain n v where m: "m = (n, v)" by (cases m)
  have plain: "\<not> starts_with n ''_''" using Cons.prems(1) m by simp
  have fresh: "n \<notin> set seen" using Cons.prems(3) m by auto
  have rest: "enum_body ms (n # seen) = Inr ms"
  proof (rule Cons.IH)
    show "list_all (\<lambda>(n, v). \<not> starts_with n ''_'') ms" using Cons.prems(1) by simp
    show "distinct (map fst ms)" using Cons.prems(2) by simp
    show "set (map fst ms) \<inter> set (n # seen) = {}"
      using Cons.prems(2) Cons.prems(3) m by auto
  qed
  show ?case
    using plain_name_not_special[OF plain] plain fresh rest m by simp
qed

lemma identifier_is_word: "is_identifier s \<Longrightarrow> is_word s"
  by (cases s) (auto simp: is_identifier_def is_word_def)

lemma enum_class_accepted:
  assumes "enum_accepted h doc e"
  shows "enum_class h doc e = Inr (enum_members e)"
proof -
  have a: "list_all (\<lambda>(n, v). is_word n \<and> list_all (\<lambda>c. \<not> is_lower c) n
             \<and> literal_ok (CHR 0x22) v) (enum_members e)"
    using assms by (auto simp: enum_accepted_def list_all_iff identifier_is_word)
  have b: "list_all (\<lambda>(n, v). \<not> starts_with n ''_'') (enum_members e)"
    using assms by (auto simp: enum_accepted_def list_all_iff)
  have c: "\<not> list_ex (\<lambda>(n, v). \<not> is_identifier n) (enum_members e)"
    using assms by (auto simp: enum_accepted_def list_all_iff list_ex_iff)
  have w: "is_word (enum_name e)"
    using assms by (simp add: enum_accepted_def name_ok_def identifier_is_word)
  have body: "enum_body (enum_members e) [] = Inr (enum_members e)"
    using assms b by (intro enum_body_members) (simp_all add: enum_accepted_def)
  show ?thesis
    using assms a c w body by (simp add: enum_class_def enum_accepted_def)
qed

text \<open>
  Claim C8, as the code has it. For every enumeration whose emitted class Python
  accepts with one member for each value (the identifiers of the values are pairwise
  distinct ASCII identifiers without a leading underscore, the class name is an
  identifier that can be bound, the values and the description are plain text, and
  the module leaves \<open>enum\<close>, \<open>str\<close> and \<open>classmethod\<close> alone): the class has one
  member for each value, in schema order, named by the upper-cased \<open>underscore\<close> of
  the value; its \<open>from_json\<close> raises \<open>ValueError\<close> on every text that is not a
  declared value; and \<open>from_json\<close> of \<open>to_json\<close> of a member is that member.
\<close>

theorem enum_closure:
  assumes en: "type_enum t = Some vs"
    and acc: "map_sum id (enum_accepted h (docstring (type_description t)))
                (generate_enum_code t) = Inr True"
  shows "\<exists>e. generate_enum_code t = Inr e
       \<and> enum_members e = map (\<lambda>v. (upper (underscore v), v)) vs
       \<and> (\<forall>s. s \<notin> set vs \<longrightarrow>
             enum_run_from_json h (docstring (type_description t)) e (VStr s)
               = Inl ValueError)
       \<and> (\<forall>v. v \<in> set vs \<longrightarrow>
             ebind (enum_run_to_json h (docstring (type_description t)) e
                      (VEnum (enum_name e) v))
               (enum_run_from_json h (docstring (type_description t)) e)
               = Inr (VEnum (enum_name e) v))"
proof -
  define doc where "doc = docstring (type_description t)"
  define e where "e = PyEnum (type_id t) (map (\<lambda>v. (upper (underscore v), v)) vs)"
  have g: "generate_enum_code t = Inr e"
    using en by (simp add: generate_enum_code_def e_def)
  have ok: "enum_accepted h doc e"
    using acc by (simp add: g doc_def)
  have cls: "enum_class h doc e = Inr (enum_members e)"
    by (rule enum_class_accepted[OF ok])
  have vals: "map snd (enum_members e) = vs"
    by (simp add: e_def comp_def)
  have m: "enum_members e = map (\<lambda>v. (upper (underscore v), v)) vs"
    by (simp add: e_def)
  have bad: "enum_run_from_json h doc e (VStr s) = Inl ValueError" if "s \<notin> set vs" for s
    using that by (simp add: enum_run_from_json_def cls vals)
  have rt: "ebind (enum_run_to_json h doc e (VEnum (enum_name e) v))
              (enum_run_from_json h doc e) = Inr (VEnum (enum_name e) v)"
    if "v \<in> set vs" for v
    using that by (simp add: enum_run_from_json_def enum_run_to_json_def ebind_def cls vals)
  show ?thesis using g m bad rt unfolding doc_def by (intro exI[of _ e]) simp
qed

theorem enum_closure_witness:
  "\<exists>e. generate_enum_code source_type_enum = Inr e
     \<and> enum_members e = [(''ATTRIBUTE'', ''attribute''), (''IMPLICIT'', ''implicit''),
          (''STYLE'', ''style''), (''CONTENTS'', ''contents''),
          (''PLACEHOLDER'', ''placeholder''), (''RELATED_ELEMENT'', ''relatedElement'')]
     \<and> enum_run_from_json no_host (docstring (type_description source_type_enum)) e
          (VStr ''computed'') = Inl ValueError
     \<and> ebind (enum_run_to_json no_host (docstring (type_description source_type_enum)) e
                (VEnum (enum_name e) ''style''))
         (enum_run_from_json no_host (docstring (type_description source_type_enum)) e)
         = Inr (VEnum (enum_name e) ''style'')"
proof -
  define vs where "vs = [''attribute'', ''implicit'', ''style'', ''contents'',
                       ''placeholder'', ''relatedElement'']"
  define doc where "doc = docstring (type_description source_type_enum)"
  have en: "type_enum source_type_enum = Some vs"
    by (simp add: source_type_enum_def vs_def)
  have acc: "map_sum id (enum_accepted no_host (docstring (type_description source_type_enum)))
               (generate_enum_code source_type_enum) = Inr True"
    by code_simp
  obtain e where e: "generate_enum_code source_type_enum = Inr e"
      "enum_members e = map (\<lambda>v. (upper (underscore v), v)) vs"
      "\<forall>s. s \<notin> set vs \<longrightarrow> enum_run_from_json no_host doc e (VStr s) = Inl ValueError"
      "\<forall>v. v \<in> set vs \<longrightarrow>
             ebind (enum_run_to_json no_host doc e (VEnum (enum_name e) v))
               (enum_run_from_json no_host doc e) = Inr (VEnum (enum_name e) v)"
    using enum_closure[OF en acc] unfolding doc_def by auto
  have names: "map (\<lambda>v. (upper (underscore v), v)) vs
     = [(''ATTRIBUTE'', ''attribute''), (''IMPLICIT'', ''implicit''),
          (''STYLE'', ''style''), (''CONTENTS'', ''contents''),
          (''PLACEHOLDER'', ''placeholder''), (''RELATED_ELEMENT'', ''relatedElement'')]"
    unfolding vs_def by code_simp
  have out: "''computed'' \<notin> set vs" unfolding vs_def by simp
  have inn: "''style'' \<in> set vs" unfolding vs_def by simp
  show ?thesis
    using e(1) e(2) names e(3)[rule_format, OF out] e(4)[rule_format, OF inn]
    unfolding doc_def by (intro exI[of _ e]) simp
qed

text \<open>
  The claim as the specification states it, for every enumeration, fails on an
  enumeration two of whose values have the same identifier: \<open>fooBar\<close> and \<open>foo_bar\<close>
  both become \<open>FOO_BAR\<close>, the class statement raises \<open>TypeError\<close> at the second,
  and no member exists to decode or to round-trip.
\<close>

theorem enum_identifier_clash:
  "classify clash_enum = Enumeration
   \<and> map_sum id enum_members (generate_enum_code clash_enum)
       = Inr [(''FOO_BAR'', ''fooBar''), (''FOO_BAR'', ''foo_bar'')]
   \<and> ebind (generate_enum_code clash_enum)
        (\<lambda>e. enum_class no_host (docstring (type_description clash_enum)) e)
       = Inl TypeError
   \<and> ebind (generate_enum_code clash_enum)
        (\<lambda>e. ebind (enum_run_to_json no_host (docstring (type_description clash_enum)) e
                      (VEnum (enum_name e) ''fooBar''))
               (enum_run_from_json no_host (docstring (type_description clash_enum)) e))
       = Inl TypeError"
  by code_simp

subsection \<open>The request of a command\<close>

lemma map_of_dict_set: "map_of (dict_set d k v) x = (if x = k then Some v else map_of d x)"
  by (induction d) auto

lemma dict_set_twice: "dict_set (dict_set d k a) k b = dict_set d k b"
  by (induction d) auto

lemma emap_Inr_id: "emap Inr xs = Inr xs"
  by (induction xs) auto

lemma emap_loop_var:
  "emap (\<lambda>x. eval_expr h self ((''i'', x) # locals) (ToJson (Name ''i''))) xs
     = emap (host_to_json h) xs"
  by (induction xs) auto

lemma emap_loop_var_plain:
  "emap (\<lambda>x. eval_expr h self ((''i'', x) # locals) (Name ''i'')) xs = Inr xs"
  by (induction xs) auto

lemma generate_to_json_rhs:
  "generate_to_json p d False =
     (if prop_optional p
      then IfStmt (IsNotNone (Name (py_name p)))
             (SetItem d (prop_name p) (to_json_rhs p (Name (py_name p))))
      else SetItem d (prop_name p) (to_json_rhs p (Name (py_name p))))"
  by (simp add: generate_to_json_def to_json_rhs_def Let_def)

lemma eval_to_json_rhs:
  assumes "map_of locals x = Some v"
  shows "eval_expr h self locals (to_json_rhs p (Name x)) = wire_encoding h p v"
proof (cases "prop_items p")
  case None
  then show ?thesis using assms by (simp add: to_json_rhs_def wire_encoding_def)
next
  case (Some it)
  show ?thesis
  proof (cases "py_iter v")
    case (Inl err)
    then show ?thesis using assms Some by (simp add: to_json_rhs_def wire_encoding_def)
  next
    case (Inr xs)
    then show ?thesis
      using assms Some
      by (simp add: to_json_rhs_def wire_encoding_def emap_loop_var emap_loop_var_plain
            emap_Inr_id del: eval_expr.simps(7))
  qed
qed

lemma exec_to_json_step:
  assumes par: "map_of locals ''params'' = Some (VDict acc)"
    and var: "map_of locals (py_name p) = Some v"
  shows "exec_stmt h [] locals (generate_to_json p ''params'' False) =
     (if prop_optional p \<and> v = VNone then Inr locals
      else (case wire_encoding h p v of
              Inl err \<Rightarrow> Inl err
            | Inr w \<Rightarrow> Inr (dict_set locals ''params''
                              (VDict (dict_set acc (prop_name p) w)))))"
proof -
  have rhs: "eval_expr h [] locals (to_json_rhs p (Name (py_name p))) = wire_encoding h p v"
    by (rule eval_to_json_rhs[OF var])
  have set: "exec_stmt h [] locals (SetItem ''params'' (prop_name p)
                 (to_json_rhs p (Name (py_name p)))) =
     (case wire_encoding h p v of
        Inl err \<Rightarrow> Inl err
      | Inr w \<Rightarrow> Inr (dict_set locals ''params'' (VDict (dict_set acc (prop_name p) w))))"
    by (cases "wire_encoding h p v") (simp_all add: rhs par)
  show ?thesis
  proof (cases "prop_optional p")
    case False
    then show ?thesis by (simp add: generate_to_json_rhs set del: exec_stmt.simps)
  next
    case True
    show ?thesis
    proof (cases "v = VNone")
      case True
      then show ?thesis using \<open>prop_optional p\<close> var by (simp add: generate_to_json_rhs)
    next
      case False
      have "exec_stmt h [] locals (generate_to_json p ''params'' False) =
            exec_stmt h [] locals (SetItem ''params'' (prop_name p)
                 (to_json_rhs p (Name (py_name p))))"
        using \<open>prop_optional p\<close> var False
        by (simp add: generate_to_json_rhs del: exec_stmt.simps(1))
      then show ?thesis using False set by (simp del: exec_stmt.simps)
    qed
  qed
qed

lemma exec_assigns:
  assumes "map_of locals ''params'' = Some (VDict acc)"
    and "\<forall>x. x \<noteq> ''params'' \<longrightarrow> map_of locals x = map_of frame x"
    and "''params'' \<notin> set (map py_name ps)"
  shows "exec_stmts h [] locals (map (\<lambda>p. generate_to_json p ''params'' False) ps) =
     (case request_params h frame ps acc of
        Inl err \<Rightarrow> Inl err
      | Inr acc' \<Rightarrow> Inr (dict_set locals ''params'' (VDict acc')))"
  using assms
proof (induction ps arbitrary: locals acc)
  case Nil
  have "dict_set locals ''params'' (VDict acc) = locals"
    using Nil(1) by (induction locals) (auto split: if_splits)
  then show ?case by simp
next
  case (Cons p ps)
  have ne: "py_name p \<noteq> ''params''" using Cons.prems(3) by auto
  have rest: "''params'' \<notin> set (map py_name ps)" using Cons.prems(3) by simp
  have look: "map_of locals (py_name p) = map_of frame (py_name p)"
    using Cons.prems(2) ne by simp
  show ?case
  proof (cases "map_of frame (py_name p)")
    case None
    then have nl: "map_of locals (py_name p) = None" using look by simp
    have "exec_stmt h [] locals (generate_to_json p ''params'' False) = Inl NameError"
      using nl
      by (cases "prop_items p")
         (auto simp: generate_to_json_def Let_def)
    then show ?thesis using None by simp
  next
    case (Some v)
    then have var: "map_of locals (py_name p) = Some v" using look by simp
    note step = exec_to_json_step[OF Cons.prems(1) var, of h]
    show ?thesis
    proof (cases "prop_optional p \<and> v = VNone")
      case True
      then have "exec_stmt h [] locals (generate_to_json p ''params'' False) = Inr locals"
        using step by simp
      then show ?thesis
        using True Some Cons.IH[OF Cons.prems(1) Cons.prems(2) rest] by simp
    next
      case False
      then have cond: "(prop_optional p \<and> v = VNone) = False" by simp
      note step' = step[unfolded cond if_False]
      show ?thesis
      proof (cases "wire_encoding h p v")
        case (Inl err)
        then have "exec_stmt h [] locals (generate_to_json p ''params'' False) = Inl err"
          using step' by simp
        then show ?thesis using Some Inl by (simp add: cond)
      next
        case (Inr w)
        define locals' where
          "locals' = dict_set locals ''params'' (VDict (dict_set acc (prop_name p) w))"
        have ex: "exec_stmt h [] locals (generate_to_json p ''params'' False) = Inr locals'"
          using step' Inr by (simp add: locals'_def)
        have p1: "map_of locals' ''params'' = Some (VDict (dict_set acc (prop_name p) w))"
          by (simp add: locals'_def map_of_dict_set)
        have p2: "\<forall>x. x \<noteq> ''params'' \<longrightarrow> map_of locals' x = map_of frame x"
          using Cons.prems(2) by (simp add: locals'_def map_of_dict_set)
        have same: "dict_set locals' ''params'' (VDict a) = dict_set locals ''params'' (VDict a)"
          for a by (simp add: locals'_def dict_set_twice)
        have "exec_stmts h [] locals' (map (\<lambda>p. generate_to_json p ''params'' False) ps) =
              (case request_params h frame ps (dict_set acc (prop_name p) w) of
                 Inl err \<Rightarrow> Inl err
               | Inr acc' \<Rightarrow> Inr (dict_set locals ''params'' (VDict acc')))"
          using Cons.IH[OF p1 p2 rest]
          by (cases "request_params h frame ps (dict_set acc (prop_name p) w)")
             (simp_all add: same)
        then show ?thesis using ex Some Inr by (simp add: cond)
      qed
    qed
  qed
qed

lemma emap_param_names:
  "emap param_generate_code ps = Inr qs \<Longrightarrow>
     map param_name qs = map py_name ps \<and> map param_default qs = map prop_optional ps"
  by (induction ps arbitrary: qs)
     (auto split: sum.splits simp: param_generate_code_def ebind_Inr_iff)

lemma bind_args_frame:
  assumes "bind_args qs args = Inr frame"
  shows "frame = map (\<lambda>n. (n, case map_of args n of Some v \<Rightarrow> v | None \<Rightarrow> VNone))
                   (map param_name qs)"
proof -
  have em: "emap (\<lambda>p. case map_of args (param_name p) of
                        Some v \<Rightarrow> Inr (param_name p, v)
                      | None \<Rightarrow> (if param_default p then Inr (param_name p, VNone)
                                  else Inl TypeError)) qs = Inr frame"
    using assms by (simp add: bind_args_def split: if_splits option.splits)
  show ?thesis
    using em
    by (induction qs arbitrary: frame)
       (auto split: sum.splits option.splits if_splits)
qed

lemma captures_none:
  assumes "captures f = []"
  shows "''params'' \<notin> set (map param_name (fn_params f))"
    and "''dict'' \<notin> set (map param_name (fn_params f))"
  using assms by (auto simp: captures_def filter_empty_conv header_names_def)

text \<open>
  Claim C5, as the code has it. For every command for which a unit is emitted, whose
  definition Python accepts (the name of the function and those of the parameters are
  ASCII identifiers that can be bound, no two parameters have the same Python name, no
  required parameter follows an optional one, the names, references and descriptions
  are plain text, and the module leaves the names of its header and the builtins
  alone) and of which no parameter hides a name that the body reads (\<open>params\<close>,
  \<open>dict\<close> and the like): the method of its request is the domain and the command
  name joined by a dot; started with keyword arguments, the unit binds every
  parameter, under its Python name, to the value supplied or to \<open>None\<close>, and yields
  the request of the specification, or raises what the call or an encoding raises; the
  request has the params mapping (the wire encodings of the parameters, absent
  optional ones left out) when the command has parameters, and only the method when it
  has none; and with no returns, any response sent in ends the unit with no value.
\<close>

theorem command_request:
  assumes gen: "cmd_generate_code c = Inr f"
    and acc: "command_accepted h f"
  shows "fn_method f = cmd_domain c @ ''.'' @ cmd_name c
       \<and> command_start h f args = ebind (bind_args (fn_params f) args) (wire_request h c)
       \<and> (\<forall>frame. bind_args (fn_params f) args = Inr frame \<longrightarrow>
             frame = map (\<lambda>n. (n, case map_of args n of Some v \<Rightarrow> v | None \<Rightarrow> VNone))
                       (map py_name (cmd_parameters c)))
       \<and> (cmd_returns c = [] \<longrightarrow> command_resume h f response = Inr VNone)"
proof -
  from gen obtain params returns where
    ps: "emap param_generate_code (cmd_parameters c) = Inr params"
    and rs: "emap (\<lambda>r. generate_return r ''json'') (cmd_returns c) = Inr returns"
    and fp: "fn_params f = params"
    and fa: "fn_assigns f = map (\<lambda>p. generate_to_json p ''params'' False) (cmd_parameters c)"
    and fm: "fn_method f = cmd_domain c @ ''.'' @ cmd_name c"
    and ft: "fn_attach_params f = (cmd_parameters c \<noteq> [])"
    and fr: "fn_returns f = returns"
    unfolding cmd_generate_code_def by (auto simp: ebind_Inr_iff)
  have dc: "def_check h f = None" and cap: "captures f = []"
    using acc by (simp_all add: command_accepted_def)
  have names: "map param_name params = map py_name (cmd_parameters c)"
    using emap_param_names[OF ps] by simp
  have hyg: "''params'' \<notin> set (map py_name (cmd_parameters c))"
    using captures_none(1)[OF cap] by (simp add: fp names)
  have nodict: "''dict'' \<notin> set (map py_name (cmd_parameters c))"
    using captures_none(2)[OF cap] by (simp add: fp names)
  have frame_eq: "frame = map (\<lambda>n. (n, case map_of args n of Some v \<Rightarrow> v | None \<Rightarrow> VNone))
                       (map py_name (cmd_parameters c))"
    if "bind_args (fn_params f) args = Inr frame" for frame
    using bind_args_frame[of params args frame] that by (simp add: fp names)
  have resume: "command_resume h f response = Inr VNone" if "cmd_returns c = []"
    using that rs fr by (simp add: command_resume_def dc cap)
  have start: "command_start h f args = ebind (bind_args (fn_params f) args) (wire_request h c)"
  proof (cases "bind_args (fn_params f) args")
    case (Inl err)
    then show ?thesis by (simp add: command_start_def ebind_def dc)
  next
    case (Inr frame)
    have keys: "map fst frame = map py_name (cmd_parameters c)"
      using frame_eq[OF Inr] by (simp add: comp_def)
    have nd: "\<not> List.member (map fst frame) ''dict''"
      using nodict keys by simp
    have body: "command_start h f args =
         ebind (exec_stmts h []
                  (if fn_attach_params f then dict_set frame ''params'' (VDict [])
                   else frame)
                  (fn_assigns f)) (\<lambda>locals.
         ebind (if fn_attach_params f
                then (case map_of locals ''params'' of
                        Some v \<Rightarrow> Inr [(''params'', v)]
                      | None \<Rightarrow> Inl NameError)
                else Inr []) (\<lambda>ps.
         Inr (VDict ((''method'', VStr (fn_method f)) # ps))))"
      using Inr nd by (simp add: command_start_def dc cap ebind_def)
    show ?thesis
    proof (cases "cmd_parameters c = []")
      case True
      then show ?thesis
        using Inr by (simp add: body ebind_def fa ft fm wire_request_def)
    next
      case False
      define locals where "locals = dict_set frame ''params'' (VDict [])"
      have l1: "map_of locals ''params'' = Some (VDict [])"
        by (simp add: locals_def map_of_dict_set)
      have l2: "\<forall>x. x \<noteq> ''params'' \<longrightarrow> map_of locals x = map_of frame x"
        by (simp add: locals_def map_of_dict_set)
      have ex: "exec_stmts h [] locals (fn_assigns f) =
         (case request_params h frame (cmd_parameters c) [] of
            Inl err \<Rightarrow> Inl err
          | Inr acc' \<Rightarrow> Inr (dict_set locals ''params'' (VDict acc')))"
        unfolding fa by (rule exec_assigns[OF l1 l2 hyg])
      have cs: "command_start h f args =
         (case exec_stmts h [] locals (fn_assigns f) of
            Inl err \<Rightarrow> Inl err
          | Inr locals' \<Rightarrow>
              (case map_of locals' ''params'' of
                 Some v \<Rightarrow> Inr (VDict [(''method'', VStr (fn_method f)), (''params'', v)])
               | None \<Rightarrow> Inl NameError))"
        using False
        by (simp add: body ebind_def ft locals_def
                 split: sum.splits option.splits)
      show ?thesis
      proof (cases "request_params h frame (cmd_parameters c) []")
        case (Inl err)
        then show ?thesis
          using cs ex Inr by (simp add: ebind_def wire_request_def)
      next
        case (Inr acc')
        then show ?thesis
          using cs ex \<open>bind_args (fn_params f) args = Inr frame\<close> False
          by (simp add: ebind_def wire_request_def map_of_dict_set fm)
      qed
    qed
  qed
  show ?thesis using fm start frame_eq resume by blast
qed

theorem command_request_witness:
  "\<exists>f. cmd_generate_code move_command = Inr f
     \<and> fn_method f = ''Input.moveTo''
     \<and> command_start no_host f [(''x'', VInt 1)]
         = Inr (VDict [(''method'', VStr ''Input.moveTo''),
                       (''params'', VDict [(''x'', VInt 1)])])
     \<and> command_resume no_host f (VDict [(''id'', VInt 1), (''result'', VDict [])])
         = Inr VNone"
proof -
  have "\<not> isl (cmd_generate_code move_command)" by code_simp
  then obtain f where g: "cmd_generate_code move_command = Inr f"
    by (cases "cmd_generate_code move_command") auto
  have "map_sum id (command_accepted no_host) (cmd_generate_code move_command) = Inr True"
    by code_simp
  then have acc: "command_accepted no_host f"
    by (simp add: g)
  note inst = command_request[OF g acc, of "[(''x'', VInt 1)]"
      "VDict [(''id'', VInt 1), (''result'', VDict [])]"]
  have name: "cmd_domain move_command @ ''.'' @ cmd_name move_command = ''Input.moveTo''"
    by code_simp
  have nr: "cmd_returns move_command = []" by code_simp
  have "ebind (cmd_generate_code move_command)
          (\<lambda>f. ebind (bind_args (fn_params f) [(''x'', VInt 1)])
                  (wire_request no_host move_command))
        = Inr (VDict [(''method'', VStr ''Input.moveTo''),
                      (''params'', VDict [(''x'', VInt 1)])])"
    by code_simp
  then have req: "ebind (bind_args (fn_params f) [(''x'', VInt 1)])
                    (wire_request no_host move_command)
        = Inr (VDict [(''method'', VStr ''Input.moveTo''),
                      (''params'', VDict [(''x'', VInt 1)])])"
    by (simp add: g ebind_def)
  show ?thesis
    using inst g name nr req by (intro exI[of _ f]) simp
qed

text \<open>The claim as the specification states it, a params mapping attached to the
  request of every command, fails on a command without parameters: its request has
  the method and nothing else.\<close>

theorem command_without_parameters_has_no_params:
  "map_sum id fn_attach_params (cmd_generate_code disable_command) = Inr False
   \<and> ebind (cmd_generate_code disable_command) (\<lambda>f. command_start no_host f [])
       = Inr (VDict [(''method'', VStr ''Accessibility.disable'')])"
  by code_simp

subsection \<open>Definitions that Python does not accept\<close>

text \<open>
  The emitter writes the parameters of a command in schema order and their Python
  names as \<open>underscore\<close> gives them. Python rejects the definition when an optional
  parameter comes before a required one and when two parameters have the same Python
  name; a parameter named \<open>dict\<close> is called in place of the builtin. The emitter
  writes the identifier of a variant as the upper-cased \<open>underscore\<close> of its value:
  a value that starts with a digit gives no identifier, and a value with two leading
  and two trailing underscores gives an attribute of the class, not a member.
\<close>

lemma commands_not_accepted:
  "ebind (cmd_generate_code (command_of [int_prop ''y'' True, int_prop ''x'' False]))
     (\<lambda>f. command_start no_host f [(''x'', VInt 1)]) = Inl SyntaxError
   \<and> ebind (cmd_generate_code (command_of [int_prop ''nodeId'' False, int_prop ''node_id'' False]))
       (\<lambda>f. command_start no_host f [(''node_id'', VInt 1)]) = Inl SyntaxError
   \<and> ebind (cmd_generate_code (command_of [int_prop ''class'' False]))
       (\<lambda>f. command_start no_host f [(''class'', VInt 1)]) = Inl SyntaxError
   \<and> ebind (cmd_generate_code (command_of [int_prop ''dict'' False]))
       (\<lambda>f. command_start no_host f [(''dict'', VInt 1)]) = Inl TypeError
   \<and> ebind (cmd_generate_code (command_of [int_prop ''params'' False]))
       (\<lambda>f. command_start no_host f [(''params'', VInt 1)]) = Inl Unmodelled
   \<and> ebind (cmd_generate_code (command_of [int_prop ''x'' False, int_prop ''y'' True]))
       (\<lambda>f. command_start no_host f [(''x'', VInt 1), (''z'', VInt 2)]) = Inl TypeError"
  by code_simp

lemma enumerations_not_accepted:
  "ebind (generate_enum_code (enum_of [''2d'']))
     (\<lambda>e. enum_run_from_json no_host [] e (VStr ''2d'')) = Inl SyntaxError
   \<and> ebind (generate_enum_code (enum_of [''a b'']))
       (\<lambda>e. enum_run_from_json no_host [] e (VStr ''a b'')) = Inl Unmodelled
   \<and> ebind (generate_enum_code (enum_of [''__x__'', ''y'']))
       (\<lambda>e. enum_class no_host [] e) = Inr [(''Y'', ''y'')]
   \<and> ebind (generate_enum_code (enum_of [''__x__'', ''y'']))
       (\<lambda>e. enum_run_from_json no_host [] e (VStr ''__x__'')) = Inl ValueError
   \<and> ebind (generate_enum_code (enum_of [''_x_'']))
       (\<lambda>e. enum_class no_host [] e) = Inl ValueError"
  by code_simp

subsection \<open>The emitted text of the repository's tests\<close>

text \<open>On the inputs of \<open>test_cdp_class_type\<close>, \<open>test_cdp_command_multiple_return\<close>
  and \<open>test_cdp_event\<close> the emitted members, rendered, are the lines that the tests
  expect.\<close>

lemma test_cdp_class_type_members:
  "map_sum id (\<lambda>c. (class_name c, map render_decl (class_fields c)))
       (generate_class_code ax_value_type)
     = Inr (''AXValue'',
        [''type: '' @ sq @ ''AXValueType'' @ sq,
         ''value: typing.Optional[typing.Any] = None'',
         ''related_nodes: typing.Optional[typing.List['' @ sq @ ''AXRelatedNode'' @ sq @ '']] = None'',
         ''sources: typing.Optional[typing.List['' @ sq @ ''AXValueSource'' @ sq @ '']] = None''])
   \<and> map_sum id (\<lambda>c. map render_stmt (class_to_json c)) (generate_class_code ax_value_type)
     = Inr
        [''json['' @ sq @ ''type'' @ sq @ ''] = self.type.to_json()'',
         ''if self.value is not None:'' @ [CHR 0x0A] @ ''    json['' @ sq @ ''value'' @ sq @ ''] = self.value'',
         ''if self.related_nodes is not None:'' @ [CHR 0x0A] @ ''    json['' @ sq @ ''relatedNodes'' @ sq @ ''] = [i.to_json() for i in self.related_nodes]'',
         ''if self.sources is not None:'' @ [CHR 0x0A] @ ''    json['' @ sq @ ''sources'' @ sq @ ''] = [i.to_json() for i in self.sources]'']
   \<and> map_sum id (\<lambda>c. map render_kwarg (class_from_json c)) (generate_class_code ax_value_type)
     = Inr
        [''type=AXValueType.from_json(json['' @ sq @ ''type'' @ sq @ ''])'',
         ''value=json['' @ sq @ ''value'' @ sq @ ''] if '' @ sq @ ''value'' @ sq @ '' in json else None'',
         ''relatedNodes=[AXRelatedNode.from_json(i) for i in json['' @ sq @ ''relatedNodes'' @ sq @ '']] if '' @ sq @ ''relatedNodes'' @ sq @ '' in json else None'',
         ''sources=[AXValueSource.from_json(i) for i in json['' @ sq @ ''sources'' @ sq @ '']] if '' @ sq @ ''sources'' @ sq @ '' in json else None'']"
  by code_simp

lemma test_cdp_command_multiple_return_members:
  "map_sum id (\<lambda>f. (fn_name f, map render_param (fn_params f), fn_ret_type f))
       (cmd_generate_code get_encoded_response)
     = Inr (''get_encoded_response'',
        [''request_id: '' @ sq @ ''network.RequestId'' @ sq,
         ''encoding: str'',
         ''quality: typing.Optional[float] = None'',
         ''size_only: typing.Optional[bool] = None''],
        ''typing.Generator[T_JSON_DICT,T_JSON_DICT,typing.Tuple[str, int, int]]'')
   \<and> map_sum id (\<lambda>f. map render_stmt (fn_assigns f)) (cmd_generate_code get_encoded_response)
     = Inr
        [''params['' @ sq @ ''requestId'' @ sq @ ''] = request_id.to_json()'',
         ''params['' @ sq @ ''encoding'' @ sq @ ''] = encoding'',
         ''if quality is not None:'' @ [CHR 0x0A] @ ''    params['' @ sq @ ''quality'' @ sq @ ''] = quality'',
         ''if size_only is not None:'' @ [CHR 0x0A] @ ''    params['' @ sq @ ''sizeOnly'' @ sq @ ''] = size_only'']
   \<and> map_sum id (\<lambda>f. (fn_method f, fn_attach_params f, map render_expr (fn_returns f)))
       (cmd_generate_code get_encoded_response)
     = Inr (''Audits.getEncodedResponse'', True,
        [''str(json['' @ sq @ ''body'' @ sq @ ''] if '' @ sq @ ''body'' @ sq @ '' in json else None)'',
         ''int(json['' @ sq @ ''originalSize'' @ sq @ ''])'',
         ''int(json['' @ sq @ ''encodedSize'' @ sq @ ''])''])"
  by code_simp

lemma test_cdp_event_members:
  "map_sum id (\<lambda>e. (ev_tag e, ev_name e, map render_decl (ev_fields e)))
       (event_generate_code recording_state_changed)
     = Inr (''BackgroundService.recordingStateChanged'', ''RecordingStateChanged'',
        [''is_recording: bool'',
         ''service: '' @ sq @ ''ServiceName'' @ sq])
   \<and> map_sum id (\<lambda>e. map render_kwarg (ev_from_json e))
       (event_generate_code recording_state_changed)
     = Inr
        [''is_recording=bool(json['' @ sq @ ''isRecording'' @ sq @ ''])'',
         ''service=ServiceName.from_json(json['' @ sq @ ''service'' @ sq @ ''])'']"
  by code_simp

lemma test_cdp_command_multiple_return_docstring:
  "map_sum id fn_doc (cmd_generate_code get_encoded_response)
     = Inr (join [CHR 0x0A]
        [sq @ sq @ sq,
         ''Returns the response body and size if it were re-encoded with the specified settings. Only'',
         ''applies to images.'',
         '''',
         '':param request_id: Identifier of the network request to get content for.'',
         '':param encoding: The encoding to use.'',
         '':param quality: The quality of the encoding (0-1). (defaults to 1)'',
         '':param size_only: Whether to only return the size information (defaults to false).'',
         '':returns: a tuple with the following items:'',
         ''    0. body: (Optional) The encoded body as a base64 string. Omitted if sizeOnly is true.'',
         ''    1. originalSize: Size before re-encoding.'',
         ''    2. encodedSize: Size after re-encoding.'',
         sq @ sq @ sq])
   \<and> map_sum id (command_accepted no_host) (cmd_generate_code get_encoded_response) = Inr True
   \<and> map_sum id fn_doc (cmd_generate_code disable_command)
     = Inr (join [CHR 0x0A] [sq @ sq @ sq, ''Disables the accessibility domain.'', sq @ sq @ sq])"
  by code_simp

end
